theory Spec2Isabelle
  imports Main
begin

section \<open>Failures\<close>

text \<open>
  The ways a call of the two source files can fail to return normally.
  \<^item> \<open>InternalAssertFailed\<close>: a \<^verbatim>\<open>TORCH_INTERNAL_ASSERT\<close> whose condition is false;
  \<^item> \<open>CheckFailed msg\<close>: a \<^verbatim>\<open>TORCH_CHECK(false, msg)\<close>;
  \<^item> \<open>IndexError\<close>: a dimension outside the range \<^verbatim>\<open>maybe_wrap_dim\<close> accepts;
  \<^item> \<open>BadOptionalAccess\<close>: \<^verbatim>\<open>value()\<close> of an optional that is empty;
  \<^item> \<open>UndefinedBehaviour\<close>: a standard-library call outside its precondition
    (\<^verbatim>\<open>vector::erase\<close> of the end iterator, \<^verbatim>\<open>vector::insert\<close> outside the vector).
\<close>

datatype failure =
    InternalAssertFailed
  | CheckFailed string
  | IndexError
  | BadOptionalAccess
  | UndefinedBehaviour

section \<open>The event-handler registry (torch/csrc/monitor/events.cpp)\<close>

text \<open>
  A \<^verbatim>\<open>std::shared_ptr<EventHandler>\<close> is modelled by the address it holds: \<^verbatim>\<open>std::find\<close>
  compares shared pointers by that address. The event type is a parameter \<open>'e\<close>.

  The class \<^verbatim>\<open>EventHandlers\<close> holds the vector \<^verbatim>\<open>handlers_\<close> (field \<open>handlers\<close>). What a handler
  does with an event is outside the file; the model records every call
  \<^verbatim>\<open>handler->handle(e)\<close> in the field \<open>calls\<close>, oldest first, and takes the call to return.
  The mutex \<^verbatim>\<open>mu_\<close> is not modelled: every operation runs from start to end on the state.
\<close>

type_synonym EventHandler = nat

record 'e EventHandlers =
  handlers :: "EventHandler list"
  calls :: "(EventHandler \<times> 'e) list"



text \<open>
  \<^verbatim>\<open>std::find(first, last, v)\<close> over a vector, an iterator being its index: the index of
  the first element equal to \<open>v\<close>, or the length of the vector (\<^verbatim>\<open>end()\<close>) when there is none.
\<close>

fun std_find :: "'a list \<Rightarrow> 'a \<Rightarrow> nat" where
  "std_find [] v = 0"
| "std_find (x # xs) v = (if x = v then 0 else Suc (std_find xs v))"

text \<open>
  \<^verbatim>\<open>vector::erase(it)\<close>: the iterator must be dereferenceable; erasing \<^verbatim>\<open>end()\<close> is
  undefined behaviour.
\<close>

definition vector_erase :: "'a list \<Rightarrow> nat \<Rightarrow> failure + 'a list" where
  "vector_erase v it =
     (if it < length v then Inr (take it v @ drop (Suc it) v) else Inl UndefinedBehaviour)"

text \<open>
  \<^verbatim>\<open>EventHandlers::unregisterEventHandler\<close> (lines 21-27): the iterator that \<^verbatim>\<open>std::find\<close>
  returns is erased as it is.
\<close>

definition unregisterEventHandler ::
  "EventHandler \<Rightarrow> 'e EventHandlers \<Rightarrow> failure + 'e EventHandlers" where
  "unregisterEventHandler handler ehs =
     (let it = std_find (handlers ehs) handler in
      case vector_erase (handlers ehs) it of
        Inl f \<Rightarrow> Inl f
      | Inr hs \<Rightarrow> Inr (ehs\<lparr>handlers := hs\<rparr>))"





definition monitor_unregisterEventHandler ::
  "EventHandler \<Rightarrow> 'e EventHandlers \<Rightarrow> failure + 'e EventHandlers" where
  "monitor_unregisterEventHandler p ehs = unregisterEventHandler p ehs"





section \<open>The function-transform bindings (functorch/csrc/init.cpp)\<close>

text \<open>
  The file binds operations of the host tensor runtime. Its own functions are translated
  below as they are written. The runtime's types and helpers that they call are not part
  of the two source files; each is given the smallest model the calls in the file rely
  on, and is marked as such. An \<^verbatim>\<open>int64_t\<close> is an \<open>int\<close>: levels, identifiers and
  dimensions are only compared, copied, or shifted by a tensor's rank.
\<close>

subsection \<open>Tensors\<close>

text \<open>
  A \<^verbatim>\<open>Tensor\<close> is a handle on a \<^verbatim>\<open>TensorImpl\<close> object, here the address of the object
  (\<^verbatim>\<open>unsafeGetTensorImpl()\<close>). The state maps every address to the object there, so that
  two handles on one object are equal and a change of the object shows through both.
\<close>

type_synonym Tensor = nat

text \<open>
  Modelled from the spec: the tensor classes of the host are missing (TensorWrapper.h,
  BatchedTensorImpl.h, ATen/FunctionalTensorWrapper.h). The spec lists them as the
  entities of the data model, "batched tensors, gradient-tracking wrapper tensors,
  functional tensors", whose "metadata (level numbers, batch dimensions)" the file reads
  and mutates "through accessor calls". An object is of one of these classes or a plain
  tensor, and has the fields behind the accessors that the file calls:
  \<^item> \<open>BatchedTensorImpl\<close>: \<^verbatim>\<open>value()\<close>, \<^verbatim>\<open>bdim()\<close>, \<^verbatim>\<open>level()\<close>;
  \<^item> \<open>TensorWrapper\<close>: \<^verbatim>\<open>value()\<close>, \<^verbatim>\<open>is_alive()\<close>, and the level behind \<^verbatim>\<open>level()\<close>;
  \<^item> \<open>FunctionalTensorWrapper\<close>: \<^verbatim>\<open>value()\<close>, \<^verbatim>\<open>level()\<close>, and what is left to commit: the
    tensor that \<^verbatim>\<open>value()\<close> becomes once the pending updates are applied, if there are any.
\<close>

datatype TensorKind =
    Plain
  | BatchedTensorImpl (value_of: Tensor) (bdim: int) (level_of: int)
  | TensorWrapper (value_of: Tensor) (level_field: int) (is_alive: bool)
  | FunctionalTensorWrapper (value_of: Tensor) (level_of: int) (pending: "Tensor option")

text \<open>
  Modelled from the spec: \<^verbatim>\<open>c10::TensorImpl\<close> is missing. Every tensor object has its
  \<^verbatim>\<open>sizes()\<close>, the size of one element, its data (the elements it holds) and its class.
\<close>

record TensorImpl =
  sizes :: "int list"
  itemsize :: int
  data :: "int list"
  kind :: TensorKind

text \<open>
  Modelled from the spec: \<^verbatim>\<open>TensorWrapper::level()\<close> is missing. The file reads its result
  as an optional (\<^verbatim>\<open>level().has_value()\<close>, \<^verbatim>\<open>level().value()\<close> after \<^verbatim>\<open>is_alive()\<close>): the
  level is there while the wrapper is alive.
\<close>

definition TensorWrapper_level :: "TensorKind \<Rightarrow> int option" where
  "TensorWrapper_level wrapped = (if is_alive wrapped then Some (level_field wrapped) else None)"

text \<open>
  Modelled from the spec: \<^verbatim>\<open>Tensor::nbytes()\<close> is missing; it is the number of elements times
  the size of one element.
\<close>

definition nbytes :: "TensorImpl \<Rightarrow> int" where
  "nbytes t = prod_list (sizes t) * itemsize t"

subsection \<open>The interpreter stack and the thread-local flags\<close>

text \<open>
  Modelled from the spec: \<^verbatim>\<open>DynamicLayer\<close>, \<^verbatim>\<open>TransformType\<close> and \<^verbatim>\<open>RandomnessType\<close> are
  declared in missing headers (DynamicLayer.h and what it includes). The spec calls the
  entries "nesting-level stack entries" of "nested interpreter levels". A layer records
  the arguments \<^verbatim>\<open>initAndPushDynamicLayer\<close> is called with in this file; the transform
  types and randomness kinds are the ones the file names.
\<close>

datatype TransformType = Vmap | Grad | Jvp | Functionalize

datatype RandomnessType = Error | Same | Different

record DynamicLayer =
  key :: TransformType
  layerId :: int
  batchSize :: "int option"
  randomness :: "RandomnessType option"
  prev_grad_mode :: "bool option"
  prev_fwd_grad_mode :: "bool option"
  functionalize_add_back_views :: "bool option"

text \<open>
  Modelled from the spec: the state of the host that the file reads and changes is
  missing. It is the tensor objects (\<open>impl\<close>, and the number of objects made so far), the
  stack of dynamic layers (\<^verbatim>\<open>getDynamicLayerStack()\<close>, last element on top), the two
  autograd modes (\<^verbatim>\<open>c10::GradMode::is_enabled()\<close> and the forward-mode flag of
  \<^verbatim>\<open>AutogradState::get_tls_state()\<close>), and the thread-local dispatch keys that the file
  sets or reads (\<^verbatim>\<open>kBatchedKey\<close> excluded, the front and back mode keys of the dynamic
  layers included).
\<close>

record State =
  impl :: "Tensor \<Rightarrow> TensorImpl"
  allocated :: nat
  dynamicLayerStack :: "DynamicLayer list"
  grad_mode :: bool
  fw_grad_mode :: bool
  batched_key_excluded :: bool
  front_mode_key_included :: bool
  back_mode_key_included :: bool

text \<open>
  A call either returns a value or throws; either way it leaves a state behind.
\<close>

type_synonym 'a outcome = "(failure + 'a) \<times> State"

subsection \<open>Nesting of transforms\<close>

text \<open>
  The nesting functions of init.cpp. A leading underscore of a name is dropped, and the
  state is the last argument. A decrement pops first and asserts afterwards, so the
  state a failed assertion leaves is the popped one.
\<close>

text \<open>
  Modelled from the spec: \<^verbatim>\<open>initAndPushDynamicLayer\<close>, \<^verbatim>\<open>popDynamicLayerAndDeleteMetadata\<close>
  and \<^verbatim>\<open>maybeCurrentDynamicLayer\<close> (DynamicLayer.cpp) are missing. The spec speaks of a
  stack of "nested interpreter levels" and of a "nesting-counter": pushing adds a layer
  on top whose id is the new depth of the nesting, and returns the id; popping removes
  the top layer and returns it, and asserts that there is one; the current layer is the
  top one, if any.
\<close>

definition initAndPushDynamicLayer ::
  "TransformType \<Rightarrow> int option \<Rightarrow> RandomnessType option \<Rightarrow> bool option \<Rightarrow> bool option \<Rightarrow>
   bool option \<Rightarrow> State \<Rightarrow> int \<times> State" where
  "initAndPushDynamicLayer transform_type batch_size rnd prev_grad prev_fwd_grad add_back_views st =
     (let new_id = 1 + int (length (dynamicLayerStack st));
          layer = \<lparr>key = transform_type, layerId = new_id, batchSize = batch_size,
                   randomness = rnd, prev_grad_mode = prev_grad,
                   prev_fwd_grad_mode = prev_fwd_grad,
                   functionalize_add_back_views = add_back_views\<rparr>
      in (new_id, st\<lparr>dynamicLayerStack := dynamicLayerStack st @ [layer]\<rparr>))"

definition popDynamicLayerAndDeleteMetadata :: "State \<Rightarrow> DynamicLayer outcome" where
  "popDynamicLayerAndDeleteMetadata st =
     (if dynamicLayerStack st = [] then (Inl InternalAssertFailed, st)
      else (Inr (last (dynamicLayerStack st)),
            st\<lparr>dynamicLayerStack := butlast (dynamicLayerStack st)\<rparr>))"

definition maybeCurrentDynamicLayer :: "State \<Rightarrow> DynamicLayer option" where
  "maybeCurrentDynamicLayer st =
     (if dynamicLayerStack st = [] then None else Some (last (dynamicLayerStack st)))"

text \<open>
  \<^verbatim>\<open>get_randomness_enum\<close> (lines 191-201): the chain of string comparisons, and the \<^verbatim>\<open>TORCH_CHECK(false, ...)\<close>
  of its last branch.
\<close>

definition get_randomness_enum :: "string \<Rightarrow> failure + RandomnessType" where
  "get_randomness_enum rnd =
     (if rnd = ''error'' then Inr Error
      else if rnd = ''same'' then Inr Same
      else if rnd = ''different'' then Inr Different
      else Inl (CheckFailed ''randomness argument must be error, same, or different.''))"

text \<open>\<^verbatim>\<open>set_fwd_grad_enabled\<close>, \<^verbatim>\<open>get_fwd_grad_enabled\<close> (init.cpp, lines 203-209).\<close>

definition set_fwd_grad_enabled :: "bool \<Rightarrow> State \<Rightarrow> State" where
  "set_fwd_grad_enabled enabled st = st\<lparr>fw_grad_mode := enabled\<rparr>"

definition get_fwd_grad_enabled :: "State \<Rightarrow> bool" where
  "get_fwd_grad_enabled st = fw_grad_mode st"

text \<open>\<^verbatim>\<open>_grad_increment_nesting\<close>, \<^verbatim>\<open>_grad_decrement_nesting\<close> (lines 211-221).\<close>

definition grad_increment_nesting :: "State \<Rightarrow> int \<times> State" where
  "grad_increment_nesting st =
     (let prev_grad_mode = grad_mode st
      in initAndPushDynamicLayer Grad None None (Some prev_grad_mode) None None st)"

definition grad_decrement_nesting :: "State \<Rightarrow> int outcome" where
  "grad_decrement_nesting st =
     (case popDynamicLayerAndDeleteMetadata st of
        (Inl e, st') \<Rightarrow> (Inl e, st')
      | (Inr layer, st') \<Rightarrow>
          if key layer = Grad then (Inr (layerId layer), st')
          else (Inl InternalAssertFailed, st'))"

text \<open>\<^verbatim>\<open>_jvp_increment_nesting\<close>, \<^verbatim>\<open>_jvp_decrement_nesting\<close> (lines 223-233).\<close>

definition jvp_increment_nesting :: "State \<Rightarrow> int \<times> State" where
  "jvp_increment_nesting st =
     (let prev_fwd_grad_mode = get_fwd_grad_enabled st
      in initAndPushDynamicLayer Jvp None None None (Some prev_fwd_grad_mode) None st)"

definition jvp_decrement_nesting :: "State \<Rightarrow> int outcome" where
  "jvp_decrement_nesting st =
     (case popDynamicLayerAndDeleteMetadata st of
        (Inl e, st') \<Rightarrow> (Inl e, st')
      | (Inr layer, st') \<Rightarrow>
          if key layer = Jvp then (Inr (layerId layer), st')
          else (Inl InternalAssertFailed, st'))"

text \<open>
  \<^verbatim>\<open>_vmap_increment_nesting\<close> (lines 235-237). The argument
  \<^verbatim>\<open>get_randomness_enum(randomness)\<close> is evaluated before the call: when it
  throws, nothing is pushed.
\<close>

definition vmap_increment_nesting :: "int \<Rightarrow> string \<Rightarrow> State \<Rightarrow> int outcome" where
  "vmap_increment_nesting batch_size rnd st =
     (case get_randomness_enum rnd of
        Inl e \<Rightarrow> (Inl e, st)
      | Inr r \<Rightarrow>
          (case initAndPushDynamicLayer Vmap (Some batch_size) (Some r) None None None st of
             (new_id, st') \<Rightarrow> (Inr new_id, st')))"

text \<open>\<^verbatim>\<open>_vmap_decrement_nesting\<close> (lines 239-243).\<close>

definition vmap_decrement_nesting :: "State \<Rightarrow> int outcome" where
  "vmap_decrement_nesting st =
     (case popDynamicLayerAndDeleteMetadata st of
        (Inl e, st') \<Rightarrow> (Inl e, st')
      | (Inr layer, st') \<Rightarrow>
          if key layer = Vmap then (Inr (layerId layer), st')
          else (Inl InternalAssertFailed, st'))"

text \<open>\<^verbatim>\<open>_func_increment_nesting\<close>, \<^verbatim>\<open>_func_decrement_nesting\<close> (lines 245-253).\<close>

definition func_increment_nesting :: "bool \<Rightarrow> State \<Rightarrow> int \<times> State" where
  "func_increment_nesting reapply_views st =
     initAndPushDynamicLayer Functionalize None None None None (Some reapply_views) st"

definition func_decrement_nesting :: "State \<Rightarrow> int outcome" where
  "func_decrement_nesting st =
     (case popDynamicLayerAndDeleteMetadata st of
        (Inl e, st') \<Rightarrow> (Inl e, st')
      | (Inr layer, st') \<Rightarrow>
          if key layer = Functionalize then (Inr (layerId layer), st')
          else (Inl InternalAssertFailed, st'))"

text \<open>\<^verbatim>\<open>currentLevel\<close> (lines 313-318), exported as \<^verbatim>\<open>current_level\<close>.\<close>

definition currentLevel :: "State \<Rightarrow> failure + int" where
  "currentLevel st =
     (case maybeCurrentDynamicLayer st of
        None \<Rightarrow> Inl InternalAssertFailed
      | Some layer \<Rightarrow> Inr (layerId layer))"

subsection \<open>Sequences of nesting calls\<close>

text \<open>
  The eight nesting operations the module exports, as calls, and a run of a sequence of
  them: the run stops at the first call that throws, and otherwise collects the
  identifiers the calls return.
\<close>

datatype nesting_call =
    GradIncrement
  | GradDecrement
  | JvpIncrement
  | JvpDecrement
  | VmapIncrement int string
  | VmapDecrement
  | FuncIncrement bool
  | FuncDecrement

fun nesting_step :: "nesting_call \<Rightarrow> State \<Rightarrow> int outcome" where
  "nesting_step GradIncrement st = (case grad_increment_nesting st of (i, st') \<Rightarrow> (Inr i, st'))"
| "nesting_step GradDecrement st = grad_decrement_nesting st"
| "nesting_step JvpIncrement st = (case jvp_increment_nesting st of (i, st') \<Rightarrow> (Inr i, st'))"
| "nesting_step JvpDecrement st = jvp_decrement_nesting st"
| "nesting_step (VmapIncrement batch_size rnd) st = vmap_increment_nesting batch_size rnd st"
| "nesting_step VmapDecrement st = vmap_decrement_nesting st"
| "nesting_step (FuncIncrement reapply_views) st =
     (case func_increment_nesting reapply_views st of (i, st') \<Rightarrow> (Inr i, st'))"
| "nesting_step FuncDecrement st = func_decrement_nesting st"

fun run :: "nesting_call list \<Rightarrow> State \<Rightarrow> (int list) outcome" where
  "run [] st = (Inr [], st)"
| "run (c # cs) st =
     (case nesting_step c st of
        (Inl e, st') \<Rightarrow> (Inl e, st')
      | (Inr i, st') \<Rightarrow>
          (case run cs st' of
             (Inl e, st'') \<Rightarrow> (Inl e, st'')
           | (Inr ids, st'') \<Rightarrow> (Inr (i # ids), st'')))"

text \<open>
  Sequences in which every increment is closed by the decrement of the same transform,
  innermost first.
\<close>

inductive well_nested :: "nesting_call list \<Rightarrow> bool" where
  wn_empty: "well_nested []"
| wn_seq: "well_nested u \<Longrightarrow> well_nested v \<Longrightarrow> well_nested (u @ v)"
| wn_grad: "well_nested w \<Longrightarrow> well_nested (GradIncrement # w @ [GradDecrement])"
| wn_jvp: "well_nested w \<Longrightarrow> well_nested (JvpIncrement # w @ [JvpDecrement])"
| wn_vmap: "well_nested w \<Longrightarrow> get_randomness_enum rnd = Inr r \<Longrightarrow>
            well_nested (VmapIncrement batch_size rnd # w @ [VmapDecrement])"
| wn_func: "well_nested w \<Longrightarrow> well_nested (FuncIncrement reapply_views # w @ [FuncDecrement])"

text \<open>
  A state to run examples from: no tensor made yet, no transform active, gradient
  modes on.
\<close>

definition initial_state :: State where
  "initial_state =
     \<lparr>impl = (\<lambda>_. \<lparr>sizes = [], itemsize = 1, data = [], kind = Plain\<rparr>),
      allocated = 0, dynamicLayerStack = [], grad_mode = True, fw_grad_mode = True,
      batched_key_excluded = False, front_mode_key_included = False,
      back_mode_key_included = False\<rparr>"

subsection \<open>Host operations on tensors\<close>

text \<open>
  The host functions that the file calls on tensors. None of them is in the two source
  files; each is given the effect that the file relies on.
\<close>

text \<open>
  Modelled from the spec: \<^verbatim>\<open>at::detail::make_tensor\<close> is missing. It makes a new tensor
  object, at an address not in use, and returns the handle.
\<close>

definition make_tensor :: "TensorImpl \<Rightarrow> State \<Rightarrow> Tensor \<times> State" where
  "make_tensor t st =
     (allocated st,
      st\<lparr>impl := (impl st)(allocated st := t), allocated := Suc (allocated st)\<rparr>)"

text \<open>
  Modelled from the spec: \<^verbatim>\<open>Tensor::unsafeGetTensorImpl\<close> is missing: the address of the
  object behind the handle.
\<close>

definition unsafeGetTensorImpl :: "Tensor \<Rightarrow> nat" where
  "unsafeGetTensorImpl t = t"

text \<open>
  Modelled from the spec: \<^verbatim>\<open>maybeGetBatchedImpl\<close> (BatchedTensorImpl.h) is missing: the
  object when it is a batched tensor, a null pointer otherwise.
\<close>

definition maybeGetBatchedImpl :: "Tensor \<Rightarrow> State \<Rightarrow> TensorKind option" where
  "maybeGetBatchedImpl t st =
     (case kind (impl st t) of
        BatchedTensorImpl v b l \<Rightarrow> Some (BatchedTensorImpl v b l)
      | _ \<Rightarrow> None)"

text \<open>
  Modelled from the spec: \<^verbatim>\<open>maybeGetTensorWrapper\<close> (TensorWrapper.h) is missing: the object
  when it is a gradient-tracking wrapper, a null pointer otherwise.
\<close>

definition maybeGetTensorWrapper :: "Tensor \<Rightarrow> State \<Rightarrow> TensorKind option" where
  "maybeGetTensorWrapper t st =
     (case kind (impl st t) of
        TensorWrapper v l a \<Rightarrow> Some (TensorWrapper v l a)
      | _ \<Rightarrow> None)"

text \<open>
  Modelled from the spec: \<^verbatim>\<open>isFunctionalTensor\<close> and \<^verbatim>\<open>unsafeGetFunctionalWrapper\<close>
  (ATen/FunctionalTensorWrapper.h) are missing: whether the object is a functional
  tensor, and the object taken as one. The dispatch key \<^verbatim>\<open>Functionalize\<close> and the dynamic
  cast to \<^verbatim>\<open>FunctionalTensorWrapper\<close>, which the file also uses, are the same test.
\<close>

definition isFunctionalTensor :: "Tensor \<Rightarrow> State \<Rightarrow> bool" where
  "isFunctionalTensor t st =
     (case kind (impl st t) of
        FunctionalTensorWrapper v l p \<Rightarrow> True
      | _ \<Rightarrow> False)"

definition unsafeGetFunctionalWrapper :: "Tensor \<Rightarrow> State \<Rightarrow> TensorKind" where
  "unsafeGetFunctionalWrapper t st = kind (impl st t)"

text \<open>Modelled from the spec: \<^verbatim>\<open>Tensor::dim\<close> is missing: the number of sizes.\<close>

definition dim :: "Tensor \<Rightarrow> State \<Rightarrow> int" where
  "dim t st = int (length (sizes (impl st t)))"

text \<open>
  Modelled from the spec: \<^verbatim>\<open>addBatchDim\<close> (BatchedTensorImpl.cpp) is missing. It wraps a
  tensor in a new batched tensor with the given batch dimension and level, the spec's
  "wrapper tensor types that tag values with transform metadata"; the sizes of the
  batched tensor are those of the value without the batch dimension.
\<close>

definition addBatchDim :: "Tensor \<Rightarrow> int \<Rightarrow> int \<Rightarrow> State \<Rightarrow> Tensor \<times> State" where
  "addBatchDim self batch_dim level st =
     make_tensor
       \<lparr>sizes = map snd (filter (\<lambda>(i, n). int i \<noteq> batch_dim)
                           (enumerate 0 (sizes (impl st self)))),
        itemsize = itemsize (impl st self), data = data (impl st self),
        kind = BatchedTensorImpl self batch_dim level\<rparr> st"

text \<open>
  Modelled from the spec: \<^verbatim>\<open>makeTensorWrapper\<close> (TensorWrapper.cpp) is missing. It wraps a
  tensor in a new gradient-tracking wrapper of the given level, which is alive.
\<close>

definition makeTensorWrapper :: "Tensor \<Rightarrow> int \<Rightarrow> State \<Rightarrow> Tensor \<times> State" where
  "makeTensorWrapper self level st =
     make_tensor
       \<lparr>sizes = sizes (impl st self), itemsize = itemsize (impl st self),
        data = data (impl st self), kind = TensorWrapper self level True\<rparr> st"

text \<open>
  Modelled from the spec: \<^verbatim>\<open>to_functional_tensor\<close> and \<^verbatim>\<open>set_level\<close>
  (ATen/FunctionalTensorWrapper.h) are missing. The first wraps a tensor in a new
  functional tensor, with nothing pending and no level of its own yet (written \<open>- 1\<close>;
  the only caller sets the level at once); the second sets the level of a functional
  tensor.
\<close>

definition to_functional_tensor :: "Tensor \<Rightarrow> State \<Rightarrow> Tensor \<times> State" where
  "to_functional_tensor self st =
     make_tensor
       \<lparr>sizes = sizes (impl st self), itemsize = itemsize (impl st self),
        data = data (impl st self), kind = FunctionalTensorWrapper self (- 1) None\<rparr> st"

definition set_level :: "Tensor \<Rightarrow> int \<Rightarrow> State \<Rightarrow> State" where
  "set_level t level st =
     (case kind (impl st t) of
        FunctionalTensorWrapper v l p \<Rightarrow>
          st\<lparr>impl := (impl st)(t := (impl st t)\<lparr>kind := FunctionalTensorWrapper v level p\<rparr>)\<rparr>
      | _ \<Rightarrow> st)"

text \<open>
  Modelled from the spec: \<^verbatim>\<open>apply_updates\<close>, \<^verbatim>\<open>regenerate_from_base\<close> and \<^verbatim>\<open>sync_\<close> (here
  \<open>sync\<close>) of \<^verbatim>\<open>FunctionalTensorWrapper\<close> are missing. The file says of them: "Ensure that
  the input is up to date by committing any pending updates to the alias".
  \<open>apply_updates\<close> tells whether there are pending updates, \<open>regenerate_from_base\<close> makes
  the pending tensor the value of the wrapper, and \<open>sync\<close> does the second when the first
  says so. They change which tensor the wrapper holds, and no tensor's data.
\<close>

definition apply_updates :: "Tensor \<Rightarrow> State \<Rightarrow> bool \<times> State" where
  "apply_updates t st = (pending (kind (impl st t)) \<noteq> None, st)"

definition regenerate_from_base :: "Tensor \<Rightarrow> State \<Rightarrow> State" where
  "regenerate_from_base t st =
     (case kind (impl st t) of
        FunctionalTensorWrapper v l (Some v') \<Rightarrow>
          st\<lparr>impl := (impl st)(t := (impl st t)\<lparr>kind := FunctionalTensorWrapper v' l None\<rparr>)\<rparr>
      | _ \<Rightarrow> st)"

definition sync :: "Tensor \<Rightarrow> State \<Rightarrow> State" where
  "sync t st =
     (case apply_updates t st of
        (any_updates, st') \<Rightarrow> if any_updates then regenerate_from_base t st' else st')"

text \<open>
  Modelled from the spec: \<^verbatim>\<open>Tensor::copy_\<close> (here \<open>copy\<close>) is missing. It copies the elements
  of the source into the receiver, in place: afterwards the data of the receiver is the
  data of the source. The file calls it on two tensors of the same sizes.
\<close>

definition copy :: "Tensor \<Rightarrow> Tensor \<Rightarrow> State \<Rightarrow> State" where
  "copy self src st =
     st\<lparr>impl := (impl st)(self := (impl st self)\<lparr>data := data (impl st src)\<rparr>)\<rparr>"

text \<open>
  Modelled from the spec: \<^verbatim>\<open>maybe_wrap_dim\<close> (ATen/WrapDimUtils.h) is missing. For a tensor
  of rank \<open>n\<close> (a rank of zero counts as one) it accepts a dimension in \<open>[- n, n - 1]\<close>,
  counts a negative one from the end, and raises an index error on any other.
\<close>

definition maybe_wrap_dim :: "int \<Rightarrow> int \<Rightarrow> failure + int" where
  "maybe_wrap_dim d dim_post_expr =
     (let n = (if dim_post_expr \<le> 0 then 1 else dim_post_expr) in
      if d < - n \<or> n - 1 < d then Inl IndexError
      else Inr (if d < 0 then d + n else d))"

fun wrap_dims :: "int list \<Rightarrow> int \<Rightarrow> failure + int list" where
  "wrap_dims [] n = Inr []"
| "wrap_dims (d # ds) n =
     (case maybe_wrap_dim d n of
        Inl e \<Rightarrow> Inl e
      | Inr d' \<Rightarrow> (case wrap_dims ds n of Inl e \<Rightarrow> Inl e | Inr ds' \<Rightarrow> Inr (d' # ds')))"

text \<open>
  Modelled from the spec: \<^verbatim>\<open>Tensor::permute\<close> is missing. Given as many dimensions as the
  tensor has, each in range and none twice, it returns a new tensor whose sizes are
  those of the receiver in the order given; anything else is refused.
\<close>

definition permute :: "Tensor \<Rightarrow> int list \<Rightarrow> State \<Rightarrow> Tensor outcome" where
  "permute self dims st =
     (if int (length dims) \<noteq> dim self st then (Inl (CheckFailed ''permute''), st)
      else
        (case wrap_dims dims (dim self st) of
           Inl e \<Rightarrow> (Inl e, st)
         | Inr ds \<Rightarrow>
             if \<not> distinct ds then (Inl (CheckFailed ''permute''), st)
             else
               (case make_tensor
                  \<lparr>sizes = map (\<lambda>d. sizes (impl st self) ! nat d) ds,
                   itemsize = itemsize (impl st self), data = data (impl st self),
                   kind = Plain\<rparr> st of
                  (t, st') \<Rightarrow> (Inr t, st'))))"

text \<open>
  Modelled from the spec: \<^verbatim>\<open>Tensor::expand\<close> is missing. The requested sizes are matched
  with the sizes of the receiver from the right: where both have a size, the requested
  one must be that size, or \<open>- 1\<close> (which keeps it), or the receiver's size must be 1;
  the requested sizes in front of that are new dimensions. It returns a new tensor of
  the resulting sizes; anything else is refused.
\<close>

definition expand :: "Tensor \<Rightarrow> int list \<Rightarrow> State \<Rightarrow> Tensor outcome" where
  "expand self new_sizes st =
     (let old_sizes = sizes (impl st self);
          extra = length new_sizes - length old_sizes;
          leading = take extra new_sizes;
          trailing = drop extra new_sizes
      in
        if length new_sizes < length old_sizes then (Inl (CheckFailed ''expand''), st)
        else if \<not> list_all (\<lambda>n. 0 \<le> n) leading then (Inl (CheckFailed ''expand''), st)
        else if \<not> list_all (\<lambda>(old, new). new = - 1 \<or> new = old \<or> old = 1)
                    (zip old_sizes trailing)
          then (Inl (CheckFailed ''expand''), st)
        else
          (case make_tensor
             \<lparr>sizes = leading @
                map (\<lambda>(old, new). if new = - 1 then old else new) (zip old_sizes trailing),
              itemsize = itemsize (impl st self), data = data (impl st self),
              kind = Plain\<rparr> st of
             (t, st') \<Rightarrow> (Inr t, st')))"

text \<open>
  Modelled from the spec: \<^verbatim>\<open>unwrapTensorAtLevel\<close> and \<^verbatim>\<open>moveBatchDimToFront\<close>
  (BatchedTensorImpl.h, BatchRulesHelper.h) are missing. The first gives the value and
  the batch dimension of a tensor batched at the level, and the tensor itself with no
  batch dimension otherwise; the second moves a batch dimension, when there is one, to
  position 0.
\<close>

definition unwrapTensorAtLevel :: "Tensor \<Rightarrow> int \<Rightarrow> State \<Rightarrow> Tensor \<times> int option" where
  "unwrapTensorAtLevel tensor level st =
     (case maybeGetBatchedImpl tensor st of
        None \<Rightarrow> (tensor, None)
      | Some batched \<Rightarrow>
          if level_of batched = level then (value_of batched, Some (bdim batched))
          else (tensor, None))"

definition moveBatchDimToFront :: "Tensor \<Rightarrow> int option \<Rightarrow> State \<Rightarrow> Tensor outcome" where
  "moveBatchDimToFront tensor maybe_bdim st =
     (case maybe_bdim of
        None \<Rightarrow> (Inr tensor, st)
      | Some b \<Rightarrow>
          if b = 0 then (Inr tensor, st)
          else permute tensor (b # filter (\<lambda>d. d \<noteq> b) [0..dim tensor st - 1]) st)"

subsection \<open>The bindings on tensors\<close>

text \<open>
  The functions of init.cpp on tensors, in the order of the file. A leading underscore
  of a name is dropped, and the state is the last argument.
\<close>

text \<open>\<^verbatim>\<open>has_level\<close> (init.cpp, lines 25-31).\<close>

definition has_level :: "Tensor \<Rightarrow> int \<Rightarrow> State \<Rightarrow> bool" where
  "has_level self level st =
     (case maybeGetBatchedImpl self st of
        None \<Rightarrow> False
      | Some batched \<Rightarrow> level_of batched \<ge> level)"

text \<open>\<^verbatim>\<open>_add_batch_dim\<close> (lines 33-35).\<close>

definition add_batch_dim :: "Tensor \<Rightarrow> int \<Rightarrow> int \<Rightarrow> State \<Rightarrow> Tensor \<times> State" where
  "add_batch_dim self batch_dim level st = addBatchDim self batch_dim level st"

text \<open>\<^verbatim>\<open>_wrap_functional_tensor\<close> (lines 37-41): the new functional tensor, then \<^verbatim>\<open>set_level(level)\<close> on it.\<close>

definition wrap_functional_tensor :: "Tensor \<Rightarrow> int \<Rightarrow> State \<Rightarrow> Tensor \<times> State" where
  "wrap_functional_tensor self level st =
     (case to_functional_tensor self st of
        (t, st') \<Rightarrow> (t, set_level t level st'))"

text \<open>\<^verbatim>\<open>_assert_wrapped_functional\<close> (lines 43-49): three internal assertions, the last one on the
  addresses of the two tensor objects.\<close>

definition assert_wrapped_functional :: "Tensor \<Rightarrow> Tensor \<Rightarrow> State \<Rightarrow> failure + unit" where
  "assert_wrapped_functional unwrapped wrapped st =
     (if \<not> isFunctionalTensor wrapped st then Inl InternalAssertFailed
      else if isFunctionalTensor unwrapped st then Inl InternalAssertFailed
      else
        (let wrapped_impl = unsafeGetFunctionalWrapper wrapped st;
             wrapped_inner = value_of wrapped_impl
         in if unsafeGetTensorImpl unwrapped = unsafeGetTensorImpl wrapped_inner then Inr ()
            else Inl InternalAssertFailed))"

text \<open>\<^verbatim>\<open>_propagate_functional_input_mutation\<close> (lines 51-68). The updates are committed before
  the later assertions, so the state a failed assertion leaves is the committed one.\<close>

definition propagate_functional_input_mutation ::
  "Tensor \<Rightarrow> Tensor \<Rightarrow> State \<Rightarrow> unit outcome" where
  "propagate_functional_input_mutation unwrapped wrapped st =
     (if \<not> isFunctionalTensor wrapped st then (Inl InternalAssertFailed, st)
      else if isFunctionalTensor unwrapped st then (Inl InternalAssertFailed, st)
      else
        (let st' = sync wrapped st;
             wrapped_impl = unsafeGetFunctionalWrapper wrapped st';
             wrapped_inner = value_of wrapped_impl
         in if unsafeGetTensorImpl unwrapped = unsafeGetTensorImpl wrapped_inner
            then (Inr (), st')
            else if nbytes (impl st' unwrapped) \<noteq> nbytes (impl st' wrapped_inner)
              then (Inl InternalAssertFailed, st')
            else if sizes (impl st' unwrapped) \<noteq> sizes (impl st' wrapped_inner)
              then (Inl InternalAssertFailed, st')
            else (Inr (), copy unwrapped wrapped_inner st')))"

text \<open>\<^verbatim>\<open>remove_existing_batch_dim\<close> (lines 71-76).\<close>

definition remove_existing_batch_dim :: "TensorKind \<Rightarrow> int \<Rightarrow> failure + Tensor \<times> int" where
  "remove_existing_batch_dim batched level =
     (if level_of batched = level then Inr (value_of batched, bdim batched)
      else Inl InternalAssertFailed)"

text \<open>
  The loop of \<^verbatim>\<open>_movedim\<close>:
  \<^verbatim>\<open>for (int64_t dim = 0; dim < logical_dim; dim++) { if (dim == src) continue; permutation.push_back(dim); }\<close>
\<close>

function movedim_loop :: "int \<Rightarrow> int \<Rightarrow> int \<Rightarrow> int list \<Rightarrow> int list" where
  "movedim_loop d logical_dim src permutation =
     (if d < logical_dim then
        (if d = src then movedim_loop (d + 1) logical_dim src permutation
         else movedim_loop (d + 1) logical_dim src (permutation @ [d]))
      else permutation)"
  by pat_completeness auto
termination
  by (relation "measure (\<lambda>(d, logical_dim, src, permutation). nat (logical_dim - d))") auto

declare movedim_loop.simps [simp del]

text \<open>
  \<^verbatim>\<open>vector::insert(begin() + pos, x)\<close>: the position must lie within the vector or at its
  end.
\<close>

definition vector_insert :: "'a list \<Rightarrow> int \<Rightarrow> 'a \<Rightarrow> failure + 'a list" where
  "vector_insert v pos x =
     (if 0 \<le> pos \<and> pos \<le> int (length v) then Inr (take (nat pos) v @ x # drop (nat pos) v)
      else Inl UndefinedBehaviour)"

text \<open>\<^verbatim>\<open>_movedim\<close> (lines 82-99).\<close>

definition movedim :: "Tensor \<Rightarrow> int \<Rightarrow> int \<Rightarrow> State \<Rightarrow> Tensor outcome" where
  "movedim self src dst st =
     (let logical_dim = dim self st in
      case maybe_wrap_dim src logical_dim of
        Inl e \<Rightarrow> (Inl e, st)
      | Inr src' \<Rightarrow>
          (case maybe_wrap_dim dst logical_dim of
             Inl e \<Rightarrow> (Inl e, st)
           | Inr dst' \<Rightarrow>
               if src' = dst' then (Inr self, st)
               else
                 (case vector_insert (movedim_loop 0 logical_dim src' []) dst' src' of
                    Inl e \<Rightarrow> (Inl e, st)
                  | Inr permutation \<Rightarrow> permute self permutation st)))"

text \<open>\<^verbatim>\<open>_remove_batch_dim\<close> (lines 117-135).\<close>

definition remove_batch_dim :: "Tensor \<Rightarrow> int \<Rightarrow> int \<Rightarrow> int \<Rightarrow> State \<Rightarrow> Tensor outcome" where
  "remove_batch_dim self level batch_size out_dim st =
     (if \<not> has_level self level st then
        (let self_sizes = sizes (impl st self) in
         case vector_insert self_sizes out_dim batch_size of
           Inl e \<Rightarrow> (Inl e, st)
         | Inr expanded_sizes \<Rightarrow> expand self expanded_sizes st)
      else
        (case maybeGetBatchedImpl self st of
           None \<Rightarrow> (Inl InternalAssertFailed, st)
         | Some batched \<Rightarrow>
             (case remove_existing_batch_dim batched level of
                Inl e \<Rightarrow> (Inl e, st)
              | Inr (self_without_bdim, newly_exposed_logical_dim) \<Rightarrow>
                  movedim self_without_bdim newly_exposed_logical_dim out_dim st)))"

text \<open>
  \<^verbatim>\<open>_unwrap_functional_tensor\<close> (lines 137-153). The guard
  \<^verbatim>\<open>FunctionalizationReapplyViewsGuard\<close> sets a thread-local flag for the
  duration of the call and restores it; the flag does not show in this model.
\<close>

definition unwrap_functional_tensor :: "Tensor \<Rightarrow> bool \<Rightarrow> State \<Rightarrow> Tensor outcome" where
  "unwrap_functional_tensor self add_back_views st =
     (if \<not> isFunctionalTensor self st then (Inl InternalAssertFailed, st)
      else
        (case apply_updates self st of
           (any_updates, st') \<Rightarrow>
             (let st'' = (if any_updates then regenerate_from_base self st' else st')
              in (Inr (value_of (unsafeGetFunctionalWrapper self st'')), st''))))"

text \<open>\<^verbatim>\<open>_wrap_for_grad\<close> (lines 155-161).\<close>

definition wrap_for_grad :: "Tensor \<Rightarrow> int \<Rightarrow> State \<Rightarrow> Tensor \<times> State" where
  "wrap_for_grad self level st = makeTensorWrapper self level st"

text \<open>\<^verbatim>\<open>_unwrap_for_grad\<close> (lines 163-173).\<close>

definition unwrap_for_grad :: "Tensor \<Rightarrow> int \<Rightarrow> State \<Rightarrow> failure + Tensor" where
  "unwrap_for_grad self level st =
     (case maybeGetTensorWrapper self st of
        None \<Rightarrow> Inr self
      | Some result \<Rightarrow>
          if TensorWrapper_level result = None then Inl InternalAssertFailed
          else if TensorWrapper_level result = Some level then Inr (value_of result)
          else Inr self)"

text \<open>\<^verbatim>\<open>dlevel\<close> (lines 175-184).\<close>

definition dlevel :: "Tensor \<Rightarrow> State \<Rightarrow> failure + int" where
  "dlevel tensor st =
     (case maybeGetTensorWrapper tensor st of
        None \<Rightarrow> Inr 0
      | Some wrapped \<Rightarrow>
          if \<not> is_alive wrapped then Inr (- 1)
          else (case TensorWrapper_level wrapped of
                  None \<Rightarrow> Inl BadOptionalAccess
                | Some l \<Rightarrow> Inr l))"

text \<open>\<^verbatim>\<open>dump_tensor\<close> (lines 186-189): prints, and returns true.\<close>

definition dump_tensor :: "Tensor \<Rightarrow> State \<Rightarrow> bool" where
  "dump_tensor self st = True"

text \<open>\<^verbatim>\<open>is_batchedtensor\<close>, \<^verbatim>\<open>is_gradtrackingtensor\<close>, \<^verbatim>\<open>is_functionaltensor\<close> (lines 255-267).\<close>

definition is_batchedtensor :: "Tensor \<Rightarrow> State \<Rightarrow> bool" where
  "is_batchedtensor tensor st = (maybeGetBatchedImpl tensor st \<noteq> None)"

definition is_gradtrackingtensor :: "Tensor \<Rightarrow> State \<Rightarrow> bool" where
  "is_gradtrackingtensor tensor st = (maybeGetTensorWrapper tensor st \<noteq> None)"

definition is_functionaltensor :: "Tensor \<Rightarrow> State \<Rightarrow> bool" where
  "is_functionaltensor tensor st = isFunctionalTensor tensor st"

text \<open>\<^verbatim>\<open>get_unwrapped\<close> (lines 269-283).\<close>

definition get_unwrapped :: "Tensor \<Rightarrow> State \<Rightarrow> failure + Tensor" where
  "get_unwrapped tensor st =
     (case maybeGetBatchedImpl tensor st of
        Some batched \<Rightarrow> Inr (value_of batched)
      | None \<Rightarrow>
          (case maybeGetTensorWrapper tensor st of
             Some wrapped \<Rightarrow> Inr (value_of wrapped)
           | None \<Rightarrow>
               if isFunctionalTensor tensor st
               then Inr (value_of (unsafeGetFunctionalWrapper tensor st))
               else Inl (CheckFailed ''No wrappers present!'')))"

text \<open>\<^verbatim>\<open>maybe_get_level\<close> (lines 285-303).\<close>

definition maybe_get_level :: "Tensor \<Rightarrow> State \<Rightarrow> int" where
  "maybe_get_level tensor st =
     (case maybeGetBatchedImpl tensor st of
        Some batched \<Rightarrow> level_of batched
      | None \<Rightarrow>
          (case maybeGetTensorWrapper tensor st of
             Some wrapped \<Rightarrow>
               (case TensorWrapper_level wrapped of Some l \<Rightarrow> l | None \<Rightarrow> - 2)
           | None \<Rightarrow>
               if isFunctionalTensor tensor st
               then level_of (unsafeGetFunctionalWrapper tensor st)
               else - 1))"

text \<open>\<^verbatim>\<open>maybe_get_bdim\<close> (lines 305-311).\<close>

definition maybe_get_bdim :: "Tensor \<Rightarrow> State \<Rightarrow> int" where
  "maybe_get_bdim tensor st =
     (case maybeGetBatchedImpl tensor st of
        Some batched \<Rightarrow> bdim batched
      | None \<Rightarrow> - 1)"

text \<open>\<^verbatim>\<open>unwrapTensorAtCurrentLevel\<close> (lines 320-329), exported as \<^verbatim>\<open>unwrap_batchedtensor\<close>.\<close>

definition unwrapTensorAtCurrentLevel :: "Tensor \<Rightarrow> State \<Rightarrow> (Tensor \<times> int) outcome" where
  "unwrapTensorAtCurrentLevel tensor st =
     (case maybeCurrentDynamicLayer st of
        None \<Rightarrow> (Inl InternalAssertFailed, st)
      | Some layer \<Rightarrow>
          (let current_level = layerId layer in
           case unwrapTensorAtLevel tensor current_level st of
             (v, b) \<Rightarrow>
               (case moveBatchDimToFront v b st of
                  (Inl e, st') \<Rightarrow> (Inl e, st')
                | (Inr v', st') \<Rightarrow> (Inr (v', if b \<noteq> None then 0 else - 1), st'))))"

text \<open>\<^verbatim>\<open>tls_set_vmap_excluded\<close>, \<^verbatim>\<open>tls_set_is_included\<close>, \<^verbatim>\<open>_set_dynamic_layer_keys_included\<close>
  (lines 331-341).\<close>

definition tls_set_vmap_excluded :: "bool \<Rightarrow> State \<Rightarrow> State" where
  "tls_set_vmap_excluded excluded st = st\<lparr>batched_key_excluded := excluded\<rparr>"

definition tls_set_is_included :: "State \<Rightarrow> bool" where
  "tls_set_is_included st = front_mode_key_included st"

definition set_dynamic_layer_keys_included :: "bool \<Rightarrow> State \<Rightarrow> State" where
  "set_dynamic_layer_keys_included included st =
     st\<lparr>front_mode_key_included := included, back_mode_key_included := included\<rparr>"



subsection \<open>The exported operations\<close>

text \<open>
  The operations that \<^verbatim>\<open>PYBIND11_MODULE\<close> registers and that are defined in the file
  itself, as calls with their arguments, and what a call returns. The eight nesting
  operations are the calls of \<open>nesting_call\<close>. (The module also registers functions
  defined in other files of the host; they are not part of this model.) Printing
  (\<^verbatim>\<open>dump_tensor\<close>, \<^verbatim>\<open>dump_dls\<close>, \<^verbatim>\<open>dump_local_tls\<close>) leaves the state as it is.
\<close>

datatype module_call =
    Add_batch_dim Tensor int int
  | Remove_batch_dim Tensor int int int
  | Wrap_functional_tensor Tensor int
  | Assert_wrapped_functional Tensor Tensor
  | Propagate_functional_input_mutation Tensor Tensor
  | Unwrap_functional_tensor Tensor bool
  | Nesting nesting_call
  | Wrap_for_grad Tensor int
  | Unwrap_for_grad Tensor int
  | Dlevel Tensor
  | Dump_tensor Tensor
  | Is_batchedtensor Tensor
  | Is_gradtrackingtensor Tensor
  | Is_functionaltensor Tensor
  | Get_unwrapped Tensor
  | Maybe_get_level Tensor
  | Maybe_get_bdim Tensor
  | Current_level
  | Unwrap_batchedtensor Tensor
  | Tls_set_vmap_excluded bool
  | Tls_set_is_included
  | Set_dynamic_layer_keys_included bool
  | Dump_dls
  | Dump_local_tls
  | Set_fwd_grad_enabled bool
  | Get_fwd_grad_enabled

datatype returned =
    RTensor Tensor
  | RInt int
  | RBool bool
  | RNone
  | RTuple Tensor int

definition returning :: "('a \<Rightarrow> returned) \<Rightarrow> 'a outcome \<Rightarrow> returned outcome" where
  "returning f out = (case out of (Inl e, st) \<Rightarrow> (Inl e, st) | (Inr x, st) \<Rightarrow> (Inr (f x), st))"

fun invoke :: "module_call \<Rightarrow> State \<Rightarrow> returned outcome" where
  "invoke (Add_batch_dim self batch_dim level) st =
     (case add_batch_dim self batch_dim level st of (t, st') \<Rightarrow> (Inr (RTensor t), st'))"
| "invoke (Remove_batch_dim self level batch_size out_dim) st =
     returning RTensor (remove_batch_dim self level batch_size out_dim st)"
| "invoke (Wrap_functional_tensor self level) st =
     (case wrap_functional_tensor self level st of (t, st') \<Rightarrow> (Inr (RTensor t), st'))"
| "invoke (Assert_wrapped_functional unwrapped wrapped) st =
     returning (\<lambda>_. RNone) (assert_wrapped_functional unwrapped wrapped st, st)"
| "invoke (Propagate_functional_input_mutation unwrapped wrapped) st =
     returning (\<lambda>_. RNone) (propagate_functional_input_mutation unwrapped wrapped st)"
| "invoke (Unwrap_functional_tensor self add_back_views) st =
     returning RTensor (unwrap_functional_tensor self add_back_views st)"
| "invoke (Nesting c) st = returning RInt (nesting_step c st)"
| "invoke (Wrap_for_grad self level) st =
     (case wrap_for_grad self level st of (t, st') \<Rightarrow> (Inr (RTensor t), st'))"
| "invoke (Unwrap_for_grad self level) st = returning RTensor (unwrap_for_grad self level st, st)"
| "invoke (Dlevel tensor) st = returning RInt (dlevel tensor st, st)"
| "invoke (Dump_tensor self) st = (Inr (RBool (dump_tensor self st)), st)"
| "invoke (Is_batchedtensor tensor) st = (Inr (RBool (is_batchedtensor tensor st)), st)"
| "invoke (Is_gradtrackingtensor tensor) st = (Inr (RBool (is_gradtrackingtensor tensor st)), st)"
| "invoke (Is_functionaltensor tensor) st = (Inr (RBool (is_functionaltensor tensor st)), st)"
| "invoke (Get_unwrapped tensor) st = returning RTensor (get_unwrapped tensor st, st)"
| "invoke (Maybe_get_level tensor) st = (Inr (RInt (maybe_get_level tensor st)), st)"
| "invoke (Maybe_get_bdim tensor) st = (Inr (RInt (maybe_get_bdim tensor st)), st)"
| "invoke Current_level st = returning RInt (currentLevel st, st)"
| "invoke (Unwrap_batchedtensor tensor) st =
     returning (\<lambda>(v, b). RTuple v b) (unwrapTensorAtCurrentLevel tensor st)"
| "invoke (Tls_set_vmap_excluded excluded) st = (Inr RNone, tls_set_vmap_excluded excluded st)"
| "invoke Tls_set_is_included st = (Inr (RBool (tls_set_is_included st)), st)"
| "invoke (Set_dynamic_layer_keys_included included) st =
     (Inr RNone, set_dynamic_layer_keys_included included st)"
| "invoke Dump_dls st = (Inr RNone, st)"
| "invoke Dump_local_tls st = (Inr RNone, st)"
| "invoke (Set_fwd_grad_enabled enabled) st = (Inr RNone, set_fwd_grad_enabled enabled st)"
| "invoke Get_fwd_grad_enabled st = (Inr (RBool (get_fwd_grad_enabled st)), st)"

text \<open>
  A state with a few tensors, to run examples from: a plain tensor of sizes \<open>[2, 3]\<close>
  (tensor 0), two batched tensors over it, at level 1 with batch dimension 0 (tensor 1)
  and at level 2 with batch dimension 1 (tensor 2), two plain tensors of sizes \<open>[2]\<close>
  with different data (tensors 3 and 4), and a functional wrapper of tensor 4 (tensor 5).
  One transform is active.
\<close>

definition example_state :: State where
  "example_state =
     initial_state
       \<lparr>impl := (impl initial_state)
          (0 := \<lparr>sizes = [2, 3], itemsize = 4, data = [1, 2, 3, 4, 5, 6], kind = Plain\<rparr>,
           1 := \<lparr>sizes = [3], itemsize = 4, data = [1, 2, 3, 4, 5, 6],
                  kind = BatchedTensorImpl 0 0 1\<rparr>,
           2 := \<lparr>sizes = [2], itemsize = 4, data = [1, 2, 3, 4, 5, 6],
                  kind = BatchedTensorImpl 0 1 2\<rparr>,
           3 := \<lparr>sizes = [2], itemsize = 4, data = [7, 8], kind = Plain\<rparr>,
           4 := \<lparr>sizes = [2], itemsize = 4, data = [9, 10], kind = Plain\<rparr>,
           5 := \<lparr>sizes = [2], itemsize = 4, data = [9, 10],
                  kind = FunctionalTensorWrapper 4 1 None\<rparr>),
        allocated := 6,
        dynamicLayerStack :=
          [\<lparr>key = Vmap, layerId = 1, batchSize = Some 5, randomness = Some Error,
            prev_grad_mode = None, prev_fwd_grad_mode = None,
            functionalize_add_back_views = None\<rparr>]\<rparr>"

section \<open>Properties of the event-handler registry\<close>








lemma std_find_less_iff: "std_find xs v < length xs \<longleftrightarrow> v \<in> set xs"
  by (induction xs) auto

lemma std_find_absent: "v \<notin> set xs \<Longrightarrow> std_find xs v = length xs"
  by (induction xs) auto

lemma std_find_first:
  "v \<in> set xs \<Longrightarrow> xs ! std_find xs v = v \<and> v \<notin> set (take (std_find xs v) xs)"
  by (induction xs) auto

lemma erase_found_remove1:
  "take (std_find xs v) xs @ drop (Suc (std_find xs v)) xs = remove1 v xs"
  by (induction xs) auto

lemma unregister_absent:
  "h \<notin> set (handlers ehs) \<Longrightarrow> unregisterEventHandler h ehs = Inl UndefinedBehaviour"
  by (simp add: unregisterEventHandler_def vector_erase_def std_find_absent)

lemma unregister_present:
  "h \<in> set (handlers ehs) \<Longrightarrow>
   unregisterEventHandler h ehs = Inr (ehs\<lparr>handlers := remove1 h (handlers ehs)\<rparr>)"
  by (simp add: unregisterEventHandler_def vector_erase_def std_find_less_iff
      erase_found_remove1)


text \<open>
  C8. \<^verbatim>\<open>unregisterEventHandler(h)\<close> erases the iterator that \<^verbatim>\<open>std::find\<close> returns without
  comparing it with \<^verbatim>\<open>end()\<close>. For a handler that is not in the registry \<^verbatim>\<open>std::find\<close>
  returns \<^verbatim>\<open>end()\<close> and the erase is undefined behaviour. For a handler that is in the
  registry the call returns, it removes exactly the first occurrence of the handler
  (the position \<open>std_find\<close> returns: the handler stands there and nowhere before), the
  registry is one entry shorter, and nothing is called.
\<close>

theorem unregister_needs_registered_handler:
  "(h \<notin> set (handlers ehs) \<longrightarrow>
      std_find (handlers ehs) h = length (handlers ehs) \<and>
      monitor_unregisterEventHandler h ehs = Inl UndefinedBehaviour) \<and>
   (h \<in> set (handlers ehs) \<longrightarrow>
      (\<exists>ehs'. monitor_unregisterEventHandler h ehs = Inr ehs' \<and>
         handlers ehs' =
           take (std_find (handlers ehs) h) (handlers ehs) @
           drop (Suc (std_find (handlers ehs) h)) (handlers ehs) \<and>
         handlers ehs ! std_find (handlers ehs) h = h \<and>
         h \<notin> set (take (std_find (handlers ehs) h) (handlers ehs)) \<and>
         handlers ehs' = remove1 h (handlers ehs) \<and>
         Suc (length (handlers ehs')) = length (handlers ehs) \<and>
         calls ehs' = calls ehs))"
proof (intro conjI impI)
  assume absent: "h \<notin> set (handlers ehs)"
  show "std_find (handlers ehs) h = length (handlers ehs)"
    using absent by (rule std_find_absent)
  show "monitor_unregisterEventHandler h ehs = Inl UndefinedBehaviour"
    using absent by (simp add: monitor_unregisterEventHandler_def unregister_absent)
next
  assume present: "h \<in> set (handlers ehs)"
  let ?ehs' = "ehs\<lparr>handlers := remove1 h (handlers ehs)\<rparr>"
  have "monitor_unregisterEventHandler h ehs = Inr ?ehs'"
    using present by (simp add: monitor_unregisterEventHandler_def unregister_present)
  moreover have "handlers ?ehs' =
      take (std_find (handlers ehs) h) (handlers ehs) @
      drop (Suc (std_find (handlers ehs) h)) (handlers ehs)"
    by (simp add: erase_found_remove1)
  moreover have "handlers ehs ! std_find (handlers ehs) h = h"
    and "h \<notin> set (take (std_find (handlers ehs) h) (handlers ehs))"
    using std_find_first [OF present] by simp_all
  moreover have "Suc (length (handlers ?ehs')) = length (handlers ehs)"
    using present length_pos_if_in_set [OF present] by (simp add: length_remove1)
  ultimately show "\<exists>ehs'. monitor_unregisterEventHandler h ehs = Inr ehs' \<and>
         handlers ehs' =
           take (std_find (handlers ehs) h) (handlers ehs) @
           drop (Suc (std_find (handlers ehs) h)) (handlers ehs) \<and>
         handlers ehs ! std_find (handlers ehs) h = h \<and>
         h \<notin> set (take (std_find (handlers ehs) h) (handlers ehs)) \<and>
         handlers ehs' = remove1 h (handlers ehs) \<and>
         Suc (length (handlers ehs')) = length (handlers ehs) \<and>
         calls ehs' = calls ehs"
    by simp
qed

theorem unregister_needs_registered_handler_witness:
  "(9::nat) \<notin> set [4, 7, 4] \<and>
   monitor_unregisterEventHandler 9 \<lparr>handlers = [4, 7, 4], calls = ([] :: (nat \<times> nat) list)\<rparr>
     = Inl UndefinedBehaviour \<and>
   (4::nat) \<in> set [7, 4, 5, 4] \<and>
   (\<exists>ehs'. monitor_unregisterEventHandler 4
              \<lparr>handlers = [7, 4, 5, 4], calls = ([] :: (nat \<times> nat) list)\<rparr> = Inr ehs' \<and>
           handlers ehs' = [7, 5, 4] \<and> Suc (length (handlers ehs')) = 4)"
  using unregister_needs_registered_handler
          [of 9 "\<lparr>handlers = [4, 7, 4], calls = ([] :: (nat \<times> nat) list)\<rparr>"]
        unregister_needs_registered_handler
          [of 4 "\<lparr>handlers = [7, 4, 5, 4], calls = ([] :: (nat \<times> nat) list)\<rparr>"]
  by auto











section \<open>Properties of the nesting operations\<close>

lemma pop_pushed:
  "popDynamicLayerAndDeleteMetadata (st\<lparr>dynamicLayerStack := s @ [l]\<rparr>) =
     (Inr l, st\<lparr>dynamicLayerStack := s\<rparr>)"
  by (simp add: popDynamicLayerAndDeleteMetadata_def)

lemma pop_empty:
  "dynamicLayerStack st = [] \<Longrightarrow>
   popDynamicLayerAndDeleteMetadata st = (Inl InternalAssertFailed, st)"
  by (simp add: popDynamicLayerAndDeleteMetadata_def)

lemma push_result:
  "initAndPushDynamicLayer t b r g f v st =
     (1 + int (length (dynamicLayerStack st)),
      st\<lparr>dynamicLayerStack := dynamicLayerStack st @
         [\<lparr>key = t, layerId = 1 + int (length (dynamicLayerStack st)), batchSize = b,
           randomness = r, prev_grad_mode = g, prev_fwd_grad_mode = f,
           functionalize_add_back_views = v\<rparr>]\<rparr>)"
  by (simp add: initAndPushDynamicLayer_def Let_def)

lemma grad_decrement_pushed:
  "grad_decrement_nesting (st\<lparr>dynamicLayerStack := s @ [l]\<rparr>) =
     (if key l = Grad then Inr (layerId l) else Inl InternalAssertFailed,
      st\<lparr>dynamicLayerStack := s\<rparr>)"
  by (simp add: grad_decrement_nesting_def pop_pushed)

lemma jvp_decrement_pushed:
  "jvp_decrement_nesting (st\<lparr>dynamicLayerStack := s @ [l]\<rparr>) =
     (if key l = Jvp then Inr (layerId l) else Inl InternalAssertFailed,
      st\<lparr>dynamicLayerStack := s\<rparr>)"
  by (simp add: jvp_decrement_nesting_def pop_pushed)

lemma vmap_decrement_pushed:
  "vmap_decrement_nesting (st\<lparr>dynamicLayerStack := s @ [l]\<rparr>) =
     (if key l = Vmap then Inr (layerId l) else Inl InternalAssertFailed,
      st\<lparr>dynamicLayerStack := s\<rparr>)"
  by (simp add: vmap_decrement_nesting_def pop_pushed)

lemma func_decrement_pushed:
  "func_decrement_nesting (st\<lparr>dynamicLayerStack := s @ [l]\<rparr>) =
     (if key l = Functionalize then Inr (layerId l) else Inl InternalAssertFailed,
      st\<lparr>dynamicLayerStack := s\<rparr>)"
  by (simp add: func_decrement_nesting_def pop_pushed)

lemma grad_increment_decrement:
  "grad_decrement_nesting (snd (grad_increment_nesting st)) =
     (Inr (fst (grad_increment_nesting st)), st)"
  by (simp add: grad_increment_nesting_def push_result grad_decrement_pushed)

lemma jvp_increment_decrement:
  "jvp_decrement_nesting (snd (jvp_increment_nesting st)) =
     (Inr (fst (jvp_increment_nesting st)), st)"
  by (simp add: jvp_increment_nesting_def push_result jvp_decrement_pushed)

lemma func_increment_decrement:
  "func_decrement_nesting (snd (func_increment_nesting v st)) =
     (Inr (fst (func_increment_nesting v st)), st)"
  by (simp add: func_increment_nesting_def push_result func_decrement_pushed)

lemma vmap_increment_decrement:
  "get_randomness_enum rnd = Inr r \<Longrightarrow>
   vmap_decrement_nesting (snd (vmap_increment_nesting b rnd st)) =
     (fst (vmap_increment_nesting b rnd st), st) \<and>
   fst (vmap_increment_nesting b rnd st) = Inr (1 + int (length (dynamicLayerStack st)))"
  by (simp add: vmap_increment_nesting_def push_result vmap_decrement_pushed)

lemma run_append:
  "run (xs @ ys) st =
     (case run xs st of
        (Inl e, st') \<Rightarrow> (Inl e, st')
      | (Inr ids, st') \<Rightarrow>
          (case run ys st' of
             (Inl e, st'') \<Rightarrow> (Inl e, st'')
           | (Inr jds, st'') \<Rightarrow> (Inr (ids @ jds), st'')))"
  by (induction xs arbitrary: st) (auto split: prod.splits sum.splits)

lemma run_bracket:
  assumes body: "run w st1 = (Inr ids, st1)"
    and open_call: "nesting_step inc st = (Inr i, st1)"
    and close_call: "nesting_step dec st1 = (Inr i, st)"
  shows "run (inc # w @ [dec]) st = (Inr (i # ids @ [i]), st)"
  using assms by (simp add: run_append)

lemma well_nested_run: "well_nested w \<Longrightarrow> \<exists>ids. run w st = (Inr ids, st)"
proof (induction w arbitrary: st rule: well_nested.induct)
  case wn_empty
  show ?case by simp
next
  case (wn_seq u v)
  from wn_seq.IH(1) [of st] obtain ids where "run u st = (Inr ids, st)" ..
  moreover from wn_seq.IH(2) [of st] obtain jds where "run v st = (Inr jds, st)" ..
  ultimately show ?case by (simp add: run_append)
next
  case (wn_grad w)
  obtain i st1 where inc: "grad_increment_nesting st = (i, st1)" by (cases "grad_increment_nesting st")
  from wn_grad.IH [of st1] obtain ids where "run w st1 = (Inr ids, st1)" ..
  moreover have "nesting_step GradIncrement st = (Inr i, st1)" using inc by simp
  moreover have "nesting_step GradDecrement st1 = (Inr i, st)"
    using grad_increment_decrement [of st] inc by simp
  ultimately have "run (GradIncrement # w @ [GradDecrement]) st = (Inr (i # ids @ [i]), st)"
    by (rule run_bracket)
  then show ?case by blast
next
  case (wn_jvp w)
  obtain i st1 where inc: "jvp_increment_nesting st = (i, st1)" by (cases "jvp_increment_nesting st")
  from wn_jvp.IH [of st1] obtain ids where "run w st1 = (Inr ids, st1)" ..
  moreover have "nesting_step JvpIncrement st = (Inr i, st1)" using inc by simp
  moreover have "nesting_step JvpDecrement st1 = (Inr i, st)"
    using jvp_increment_decrement [of st] inc by simp
  ultimately have "run (JvpIncrement # w @ [JvpDecrement]) st = (Inr (i # ids @ [i]), st)"
    by (rule run_bracket)
  then show ?case by blast
next
  case (wn_vmap w rnd r batch_size)
  obtain x st1 where inc: "vmap_increment_nesting batch_size rnd st = (x, st1)"
    by (cases "vmap_increment_nesting batch_size rnd st")
  from vmap_increment_decrement [OF wn_vmap.hyps(2), of batch_size st] inc
  obtain i where x: "x = Inr i" and dec: "vmap_decrement_nesting st1 = (Inr i, st)"
    by auto
  from wn_vmap.IH [of st1] obtain ids where "run w st1 = (Inr ids, st1)" ..
  moreover have "nesting_step (VmapIncrement batch_size rnd) st = (Inr i, st1)"
    using inc x by simp
  moreover have "nesting_step VmapDecrement st1 = (Inr i, st)" using dec by simp
  ultimately have
    "run (VmapIncrement batch_size rnd # w @ [VmapDecrement]) st = (Inr (i # ids @ [i]), st)"
    by (rule run_bracket)
  then show ?case by blast
next
  case (wn_func w reapply_views)
  obtain i st1 where inc: "func_increment_nesting reapply_views st = (i, st1)"
    by (cases "func_increment_nesting reapply_views st")
  from wn_func.IH [of st1] obtain ids where "run w st1 = (Inr ids, st1)" ..
  moreover have "nesting_step (FuncIncrement reapply_views) st = (Inr i, st1)" using inc by simp
  moreover have "nesting_step FuncDecrement st1 = (Inr i, st)"
    using func_increment_decrement [of reapply_views st] inc by simp
  ultimately have
    "run (FuncIncrement reapply_views # w @ [FuncDecrement]) st = (Inr (i # ids @ [i]), st)"
    by (rule run_bracket)
  then show ?case by blast
qed

lemma well_nested_bracket:
  assumes "well_nested w"
    and "nesting_step inc st = (Inr i, st1)"
    and "nesting_step dec st1 = (Inr i, st)"
  shows "\<exists>ids. run (inc # w @ [dec]) st = (Inr (i # ids @ [i]), st)"
proof -
  from well_nested_run [OF assms(1), of st1] obtain ids where "run w st1 = (Inr ids, st1)" ..
  from run_bracket [OF this assms(2) assms(3)] show ?thesis ..
qed

text \<open>
  C1. For each of the four transforms, the decrement pops the layer on top of the stack,
  the one pushed last: on a stack \<open>s @ [l]\<close> it leaves \<open>s\<close>, it returns the id of \<open>l\<close> when
  \<open>l\<close> is a layer of its own transform, and fails the internal assertion when it is not
  (and when there is no layer at all). An increment pushes a layer of its transform on
  top and returns its id; the decrement right after it returns the same id and restores
  the state. Hence the pairs nest last in, first out: around any well-nested sequence
  of calls \<open>w\<close>, an increment and its decrement return the same id, every call of the
  sequence returns, and the state after it is the state before.
\<close>

theorem nesting_is_last_in_first_out:
  "grad_decrement_nesting (st\<lparr>dynamicLayerStack := s @ [l]\<rparr>) =
     (if key l = Grad then Inr (layerId l) else Inl InternalAssertFailed,
      st\<lparr>dynamicLayerStack := s\<rparr>) \<and>
   jvp_decrement_nesting (st\<lparr>dynamicLayerStack := s @ [l]\<rparr>) =
     (if key l = Jvp then Inr (layerId l) else Inl InternalAssertFailed,
      st\<lparr>dynamicLayerStack := s\<rparr>) \<and>
   vmap_decrement_nesting (st\<lparr>dynamicLayerStack := s @ [l]\<rparr>) =
     (if key l = Vmap then Inr (layerId l) else Inl InternalAssertFailed,
      st\<lparr>dynamicLayerStack := s\<rparr>) \<and>
   func_decrement_nesting (st\<lparr>dynamicLayerStack := s @ [l]\<rparr>) =
     (if key l = Functionalize then Inr (layerId l) else Inl InternalAssertFailed,
      st\<lparr>dynamicLayerStack := s\<rparr>) \<and>
   (dynamicLayerStack st = [] \<longrightarrow>
      grad_decrement_nesting st = (Inl InternalAssertFailed, st) \<and>
      jvp_decrement_nesting st = (Inl InternalAssertFailed, st) \<and>
      vmap_decrement_nesting st = (Inl InternalAssertFailed, st) \<and>
      func_decrement_nesting st = (Inl InternalAssertFailed, st)) \<and>
   (\<exists>top. dynamicLayerStack (snd (grad_increment_nesting st)) = dynamicLayerStack st @ [top] \<and>
      key top = Grad \<and> layerId top = fst (grad_increment_nesting st)) \<and>
   (\<exists>top. dynamicLayerStack (snd (jvp_increment_nesting st)) = dynamicLayerStack st @ [top] \<and>
      key top = Jvp \<and> layerId top = fst (jvp_increment_nesting st)) \<and>
   (\<exists>top. dynamicLayerStack (snd (func_increment_nesting reapply_views st)) =
        dynamicLayerStack st @ [top] \<and>
      key top = Functionalize \<and> layerId top = fst (func_increment_nesting reapply_views st)) \<and>
   grad_decrement_nesting (snd (grad_increment_nesting st)) =
     (Inr (fst (grad_increment_nesting st)), st) \<and>
   jvp_decrement_nesting (snd (jvp_increment_nesting st)) =
     (Inr (fst (jvp_increment_nesting st)), st) \<and>
   func_decrement_nesting (snd (func_increment_nesting reapply_views st)) =
     (Inr (fst (func_increment_nesting reapply_views st)), st) \<and>
   (get_randomness_enum rnd = Inr r \<longrightarrow>
      (\<exists>top. dynamicLayerStack (snd (vmap_increment_nesting batch_size rnd st)) =
          dynamicLayerStack st @ [top] \<and>
        key top = Vmap \<and> Inr (layerId top) = fst (vmap_increment_nesting batch_size rnd st)) \<and>
      vmap_decrement_nesting (snd (vmap_increment_nesting batch_size rnd st)) =
        (fst (vmap_increment_nesting batch_size rnd st), st)) \<and>
   (well_nested w \<longrightarrow>
      (\<exists>ids. run w st = (Inr ids, st)) \<and>
      (\<exists>ids. run (GradIncrement # w @ [GradDecrement]) st =
         (Inr (fst (grad_increment_nesting st) # ids @ [fst (grad_increment_nesting st)]), st)) \<and>
      (\<exists>ids. run (JvpIncrement # w @ [JvpDecrement]) st =
         (Inr (fst (jvp_increment_nesting st) # ids @ [fst (jvp_increment_nesting st)]), st)) \<and>
      (\<exists>ids. run (FuncIncrement reapply_views # w @ [FuncDecrement]) st =
         (Inr (fst (func_increment_nesting reapply_views st) # ids @
               [fst (func_increment_nesting reapply_views st)]), st)) \<and>
      (get_randomness_enum rnd = Inr r \<longrightarrow>
         (\<exists>i ids. fst (vmap_increment_nesting batch_size rnd st) = Inr i \<and>
            run (VmapIncrement batch_size rnd # w @ [VmapDecrement]) st =
              (Inr (i # ids @ [i]), st))))"
proof -
  have empty: "dynamicLayerStack st = [] \<longrightarrow>
      grad_decrement_nesting st = (Inl InternalAssertFailed, st) \<and>
      jvp_decrement_nesting st = (Inl InternalAssertFailed, st) \<and>
      vmap_decrement_nesting st = (Inl InternalAssertFailed, st) \<and>
      func_decrement_nesting st = (Inl InternalAssertFailed, st)"
    by (simp add: grad_decrement_nesting_def jvp_decrement_nesting_def
        vmap_decrement_nesting_def func_decrement_nesting_def pop_empty)
  have top_grad: "\<exists>top. dynamicLayerStack (snd (grad_increment_nesting st)) =
        dynamicLayerStack st @ [top] \<and>
      key top = Grad \<and> layerId top = fst (grad_increment_nesting st)"
    by (simp add: grad_increment_nesting_def push_result)
  have top_jvp: "\<exists>top. dynamicLayerStack (snd (jvp_increment_nesting st)) =
        dynamicLayerStack st @ [top] \<and>
      key top = Jvp \<and> layerId top = fst (jvp_increment_nesting st)"
    by (simp add: jvp_increment_nesting_def push_result)
  have top_func: "\<exists>top. dynamicLayerStack (snd (func_increment_nesting reapply_views st)) =
        dynamicLayerStack st @ [top] \<and>
      key top = Functionalize \<and> layerId top = fst (func_increment_nesting reapply_views st)"
    by (simp add: func_increment_nesting_def push_result)
  have vmap: "get_randomness_enum rnd = Inr r \<longrightarrow>
      (\<exists>top. dynamicLayerStack (snd (vmap_increment_nesting batch_size rnd st)) =
          dynamicLayerStack st @ [top] \<and>
        key top = Vmap \<and> Inr (layerId top) = fst (vmap_increment_nesting batch_size rnd st)) \<and>
      vmap_decrement_nesting (snd (vmap_increment_nesting batch_size rnd st)) =
        (fst (vmap_increment_nesting batch_size rnd st), st)"
    by (simp add: vmap_increment_nesting_def push_result vmap_decrement_pushed)
  have nested: "well_nested w \<longrightarrow>
      (\<exists>ids. run w st = (Inr ids, st)) \<and>
      (\<exists>ids. run (GradIncrement # w @ [GradDecrement]) st =
         (Inr (fst (grad_increment_nesting st) # ids @ [fst (grad_increment_nesting st)]), st)) \<and>
      (\<exists>ids. run (JvpIncrement # w @ [JvpDecrement]) st =
         (Inr (fst (jvp_increment_nesting st) # ids @ [fst (jvp_increment_nesting st)]), st)) \<and>
      (\<exists>ids. run (FuncIncrement reapply_views # w @ [FuncDecrement]) st =
         (Inr (fst (func_increment_nesting reapply_views st) # ids @
               [fst (func_increment_nesting reapply_views st)]), st)) \<and>
      (get_randomness_enum rnd = Inr r \<longrightarrow>
         (\<exists>i ids. fst (vmap_increment_nesting batch_size rnd st) = Inr i \<and>
            run (VmapIncrement batch_size rnd # w @ [VmapDecrement]) st =
              (Inr (i # ids @ [i]), st)))"
  proof (intro impI conjI)
    assume wn: "well_nested w"
    show "\<exists>ids. run w st = (Inr ids, st)"
      using wn by (rule well_nested_run)
    show "\<exists>ids. run (GradIncrement # w @ [GradDecrement]) st =
         (Inr (fst (grad_increment_nesting st) # ids @ [fst (grad_increment_nesting st)]), st)"
      by (rule well_nested_bracket [OF wn, where ?st1.0 = "snd (grad_increment_nesting st)"])
        (simp_all add: grad_increment_decrement split: prod.splits)
    show "\<exists>ids. run (JvpIncrement # w @ [JvpDecrement]) st =
         (Inr (fst (jvp_increment_nesting st) # ids @ [fst (jvp_increment_nesting st)]), st)"
      by (rule well_nested_bracket [OF wn, where ?st1.0 = "snd (jvp_increment_nesting st)"])
        (simp_all add: jvp_increment_decrement split: prod.splits)
    show "\<exists>ids. run (FuncIncrement reapply_views # w @ [FuncDecrement]) st =
         (Inr (fst (func_increment_nesting reapply_views st) # ids @
               [fst (func_increment_nesting reapply_views st)]), st)"
      by (rule well_nested_bracket
            [OF wn, where ?st1.0 = "snd (func_increment_nesting reapply_views st)"])
        (simp_all add: func_increment_decrement split: prod.splits)
  next
    assume wn: "well_nested w" and ok: "get_randomness_enum rnd = Inr r"
    let ?i = "1 + int (length (dynamicLayerStack st))"
    let ?st1 = "snd (vmap_increment_nesting batch_size rnd st)"
    from vmap_increment_decrement [OF ok, of batch_size st]
    have dec: "vmap_decrement_nesting ?st1 = (Inr ?i, st)"
      and inc: "fst (vmap_increment_nesting batch_size rnd st) = Inr ?i"
      by simp_all
    from inc have "nesting_step (VmapIncrement batch_size rnd) st = (Inr ?i, ?st1)"
      by (cases "vmap_increment_nesting batch_size rnd st") simp
    from well_nested_bracket [OF wn this, of VmapDecrement] dec inc
    show "\<exists>i ids. fst (vmap_increment_nesting batch_size rnd st) = Inr i \<and>
            run (VmapIncrement batch_size rnd # w @ [VmapDecrement]) st =
              (Inr (i # ids @ [i]), st)"
      by auto
  qed
  note parts = grad_decrement_pushed [where st = st and s = s and l = l]
    jvp_decrement_pushed [where st = st and s = s and l = l]
    vmap_decrement_pushed [where st = st and s = s and l = l]
    func_decrement_pushed [where st = st and s = s and l = l] empty
    top_grad top_jvp top_func grad_increment_decrement [of st] jvp_increment_decrement [of st]
    func_increment_decrement [of reapply_views st] vmap nested
  show ?thesis
    by (intro conjI) (rule parts)+
qed

theorem nesting_is_last_in_first_out_witness:
  "well_nested [VmapIncrement 3 ''same'', VmapDecrement] \<and>
   get_randomness_enum ''different'' = Inr Different \<and>
   dynamicLayerStack initial_state = [] \<and>
   grad_decrement_nesting initial_state = (Inl InternalAssertFailed, initial_state) \<and>
   (\<exists>i ids. fst (vmap_increment_nesting 5 ''different'' initial_state) = Inr i \<and>
      run (VmapIncrement 5 ''different'' #
           [VmapIncrement 3 ''same'', VmapDecrement] @ [VmapDecrement]) initial_state =
        (Inr (i # ids @ [i]), initial_state))"
proof -
  have wn: "well_nested [VmapIncrement 3 ''same'', VmapDecrement]"
    using wn_vmap [OF wn_empty, of "''same''" Same 3] by (simp add: get_randomness_enum_def)
  have ok: "get_randomness_enum ''different'' = Inr Different"
    by (simp add: get_randomness_enum_def)
  have empty: "dynamicLayerStack initial_state = []"
    by (simp add: initial_state_def)
  from nesting_is_last_in_first_out
         [where st = initial_state and rnd = "''different''" and r = Different
            and batch_size = 5 and w = "[VmapIncrement 3 ''same'', VmapDecrement]"]
       wn ok empty
  show ?thesis by blast
qed

text \<open>
  C10. \<^verbatim>\<open>get_randomness_enum\<close> throws if and only if the string is none of "error",
  "same" and "different", and what it throws is the \<^verbatim>\<open>TORCH_CHECK\<close> failure with the
  message of the source. \<^verbatim>\<open>_vmap_increment_nesting\<close> throws that failure under the same
  condition, before anything is pushed. The three accepted strings map to
  \<open>Error\<close>, \<open>Same\<close> and \<open>Different\<close>, and with them the layer is pushed with that
  randomness.
\<close>

theorem vmap_increment_rejects_unknown_randomness:
  "((\<exists>e. get_randomness_enum rnd = Inl e) \<longleftrightarrow>
      (rnd \<noteq> ''error'' \<and> rnd \<noteq> ''same'' \<and> rnd \<noteq> ''different'')) \<and>
   (get_randomness_enum rnd =
        Inl (CheckFailed ''randomness argument must be error, same, or different.'') \<longleftrightarrow>
      (rnd \<noteq> ''error'' \<and> rnd \<noteq> ''same'' \<and> rnd \<noteq> ''different'')) \<and>
   (vmap_increment_nesting batch_size rnd st =
        (Inl (CheckFailed ''randomness argument must be error, same, or different.''), st) \<longleftrightarrow>
      (rnd \<noteq> ''error'' \<and> rnd \<noteq> ''same'' \<and> rnd \<noteq> ''different'')) \<and>
   ((\<exists>e. fst (vmap_increment_nesting batch_size rnd st) = Inl e) \<longleftrightarrow>
      (rnd \<noteq> ''error'' \<and> rnd \<noteq> ''same'' \<and> rnd \<noteq> ''different'')) \<and>
   get_randomness_enum ''error'' = Inr Error \<and>
   get_randomness_enum ''same'' = Inr Same \<and>
   get_randomness_enum ''different'' = Inr Different \<and>
   vmap_increment_nesting batch_size ''error'' st =
     (case initAndPushDynamicLayer Vmap (Some batch_size) (Some Error) None None None st of
        (i, st') \<Rightarrow> (Inr i, st')) \<and>
   vmap_increment_nesting batch_size ''same'' st =
     (case initAndPushDynamicLayer Vmap (Some batch_size) (Some Same) None None None st of
        (i, st') \<Rightarrow> (Inr i, st')) \<and>
   vmap_increment_nesting batch_size ''different'' st =
     (case initAndPushDynamicLayer Vmap (Some batch_size) (Some Different) None None None st of
        (i, st') \<Rightarrow> (Inr i, st'))"
proof -
  have enum_iff: "(\<exists>e. get_randomness_enum rnd = Inl e) \<longleftrightarrow>
      (rnd \<noteq> ''error'' \<and> rnd \<noteq> ''same'' \<and> rnd \<noteq> ''different'')"
    by (simp add: get_randomness_enum_def)
  have enum_msg: "get_randomness_enum rnd =
        Inl (CheckFailed ''randomness argument must be error, same, or different.'') \<longleftrightarrow>
      (rnd \<noteq> ''error'' \<and> rnd \<noteq> ''same'' \<and> rnd \<noteq> ''different'')"
    by (simp add: get_randomness_enum_def)
  have vmap_msg: "vmap_increment_nesting batch_size rnd st =
        (Inl (CheckFailed ''randomness argument must be error, same, or different.''), st) \<longleftrightarrow>
      (rnd \<noteq> ''error'' \<and> rnd \<noteq> ''same'' \<and> rnd \<noteq> ''different'')"
    by (simp add: vmap_increment_nesting_def get_randomness_enum_def push_result)
  have vmap_iff: "(\<exists>e. fst (vmap_increment_nesting batch_size rnd st) = Inl e) \<longleftrightarrow>
      (rnd \<noteq> ''error'' \<and> rnd \<noteq> ''same'' \<and> rnd \<noteq> ''different'')"
    by (simp add: vmap_increment_nesting_def get_randomness_enum_def push_result)
  have e1: "get_randomness_enum ''error'' = Inr Error"
    and e2: "get_randomness_enum ''same'' = Inr Same"
    and e3: "get_randomness_enum ''different'' = Inr Different"
    by (simp_all add: get_randomness_enum_def)
  have v1: "vmap_increment_nesting batch_size ''error'' st =
     (case initAndPushDynamicLayer Vmap (Some batch_size) (Some Error) None None None st of
        (i, st') \<Rightarrow> (Inr i, st'))"
    by (simp add: vmap_increment_nesting_def e1)
  have v2: "vmap_increment_nesting batch_size ''same'' st =
     (case initAndPushDynamicLayer Vmap (Some batch_size) (Some Same) None None None st of
        (i, st') \<Rightarrow> (Inr i, st'))"
    by (simp add: vmap_increment_nesting_def e2)
  have v3: "vmap_increment_nesting batch_size ''different'' st =
     (case initAndPushDynamicLayer Vmap (Some batch_size) (Some Different) None None None st of
        (i, st') \<Rightarrow> (Inr i, st'))"
    by (simp add: vmap_increment_nesting_def e3)
  note parts = enum_iff enum_msg vmap_msg vmap_iff e1 e2 e3 v1 v2 v3
  show ?thesis
    by (intro conjI) (rule parts)+
qed

theorem vmap_increment_rejects_unknown_randomness_witness:
  "vmap_increment_nesting 4 ''Same'' initial_state =
     (Inl (CheckFailed ''randomness argument must be error, same, or different.''),
      initial_state) \<and>
   fst (vmap_increment_nesting 4 ''same'' initial_state) = Inr 1"
  using vmap_increment_rejects_unknown_randomness
          [where rnd = "''Same''" and batch_size = 4 and st = initial_state]
        vmap_increment_rejects_unknown_randomness
          [where rnd = "''same''" and batch_size = 4 and st = initial_state]
  by (simp add: push_result initial_state_def)

section \<open>Properties of the wrappers\<close>

lemma wrap_for_grad_result:
  "wrap_for_grad t l st = (w, st') \<Longrightarrow>
   w = allocated st \<and> maybeGetTensorWrapper w st' = Some (TensorWrapper t l True)"
  by (auto simp: wrap_for_grad_def makeTensorWrapper_def make_tensor_def
      maybeGetTensorWrapper_def)

lemma unwrap_not_wrapper:
  "maybeGetTensorWrapper s st = None \<Longrightarrow> unwrap_for_grad s l st = Inr s"
  by (simp add: unwrap_for_grad_def)

lemma unwrap_other_level:
  "maybeGetTensorWrapper s st = Some result \<Longrightarrow> TensorWrapper_level result = Some l' \<Longrightarrow>
   l' \<noteq> l \<Longrightarrow> unwrap_for_grad s l st = Inr s"
  by (simp add: unwrap_for_grad_def)

lemma unwrap_same_level:
  "maybeGetTensorWrapper s st = Some result \<Longrightarrow> TensorWrapper_level result = Some l \<Longrightarrow>
   unwrap_for_grad s l st = Inr (value_of result)"
  by (simp add: unwrap_for_grad_def)

lemma unwrap_no_level:
  "maybeGetTensorWrapper s st = Some result \<Longrightarrow> TensorWrapper_level result = None \<Longrightarrow>
   unwrap_for_grad s l st = Inl InternalAssertFailed"
  by (simp add: unwrap_for_grad_def)

text \<open>
  C2, as the code has it. Unwrapping at level \<open>l\<close> what \<^verbatim>\<open>_wrap_for_grad(t, l)\<close> returned gives
  back the handle \<open>t\<close>. \<^verbatim>\<open>_unwrap_for_grad(s, l)\<close> returns \<open>s\<close> itself when \<open>s\<close> is not a
  gradient-tracking wrapper, and when \<open>s\<close> is a wrapper whose \<^verbatim>\<open>level()\<close> has a value other
  than \<open>l\<close>; it returns the wrapped value when the level is \<open>l\<close>; and on a wrapper whose
  \<^verbatim>\<open>level()\<close> has no value it fails the internal assertion
  \<^verbatim>\<open>TORCH_INTERNAL_ASSERT(result->level().has_value())\<close>.
\<close>

theorem unwrap_for_grad_after_wrap:
  "(case wrap_for_grad t l st of
      (w, st') \<Rightarrow>
        is_gradtrackingtensor w st' \<and>
        maybeGetTensorWrapper w st' = Some (TensorWrapper t l True) \<and>
        unwrap_for_grad w l st' = Inr t) \<and>
   (maybeGetTensorWrapper s st = None \<longrightarrow> unwrap_for_grad s l st = Inr s) \<and>
   (\<forall>result l'. maybeGetTensorWrapper s st = Some result \<and>
        TensorWrapper_level result = Some l' \<and> l' \<noteq> l \<longrightarrow>
      unwrap_for_grad s l st = Inr s) \<and>
   (\<forall>result. maybeGetTensorWrapper s st = Some result \<and>
        TensorWrapper_level result = Some l \<longrightarrow>
      unwrap_for_grad s l st = Inr (value_of result)) \<and>
   (\<forall>result. maybeGetTensorWrapper s st = Some result \<and>
        TensorWrapper_level result = None \<longrightarrow>
      unwrap_for_grad s l st = Inl InternalAssertFailed)"
proof -
  obtain w st' where wrap: "wrap_for_grad t l st = (w, st')"
    by (cases "wrap_for_grad t l st")
  from wrap_for_grad_result [OF wrap]
  have wrapper: "maybeGetTensorWrapper w st' = Some (TensorWrapper t l True)" by blast
  have "TensorWrapper_level (TensorWrapper t l True) = Some l"
    by (simp add: TensorWrapper_level_def)
  from unwrap_same_level [OF wrapper this]
  have "unwrap_for_grad w l st' = Inr t" by simp
  with wrap wrapper have first: "case wrap_for_grad t l st of
      (w, st') \<Rightarrow>
        is_gradtrackingtensor w st' \<and>
        maybeGetTensorWrapper w st' = Some (TensorWrapper t l True) \<and>
        unwrap_for_grad w l st' = Inr t"
    by (simp add: is_gradtrackingtensor_def)
  from first unwrap_not_wrapper unwrap_other_level unwrap_same_level unwrap_no_level
  show ?thesis by blast
qed

theorem unwrap_for_grad_after_wrap_witness:
  "(case wrap_for_grad 0 3 (initial_state\<lparr>allocated := 1\<rparr>) of
      (w, st') \<Rightarrow> w = 1 \<and> unwrap_for_grad w 3 st' = Inr 0 \<and>
        unwrap_for_grad w 4 st' = Inr w \<and> unwrap_for_grad 0 3 st' = Inr 0) \<and>
   maybeGetTensorWrapper 1
     (initial_state\<lparr>impl := (impl initial_state)
        (1 := \<lparr>sizes = [], itemsize = 1, data = [], kind = TensorWrapper 0 3 False\<rparr>),
        allocated := 2\<rparr>) = Some (TensorWrapper 0 3 False) \<and>
   TensorWrapper_level (TensorWrapper 0 3 False) = None \<and>
   unwrap_for_grad 1 3
     (initial_state\<lparr>impl := (impl initial_state)
        (1 := \<lparr>sizes = [], itemsize = 1, data = [], kind = TensorWrapper 0 3 False\<rparr>),
        allocated := 2\<rparr>) = Inl InternalAssertFailed"
proof -
  let ?st = "initial_state\<lparr>allocated := 1\<rparr>"
  have wrap: "wrap_for_grad 0 3 ?st =
      (1, ?st\<lparr>impl := (impl ?st)(1 := \<lparr>sizes = [], itemsize = 1, data = [],
                 kind = TensorWrapper 0 3 True\<rparr>), allocated := 2\<rparr>)"
    by (simp add: wrap_for_grad_def makeTensorWrapper_def make_tensor_def initial_state_def)
  let ?st' = "?st\<lparr>impl := (impl ?st)(1 := \<lparr>sizes = [], itemsize = 1, data = [],
                 kind = TensorWrapper 0 3 True\<rparr>), allocated := 2\<rparr>"
  have w1: "maybeGetTensorWrapper 1 ?st' = Some (TensorWrapper 0 3 True)"
    by (simp add: maybeGetTensorWrapper_def)
  have w0: "maybeGetTensorWrapper 0 ?st' = None"
    by (simp add: maybeGetTensorWrapper_def initial_state_def)
  have lv: "TensorWrapper_level (TensorWrapper 0 3 True) = Some 3"
    by (simp add: TensorWrapper_level_def)
  from unwrap_for_grad_after_wrap [where t = 0 and l = 3 and st = ?st]
       unwrap_for_grad_after_wrap [where s = 1 and l = 4 and st = ?st']
       unwrap_for_grad_after_wrap [where s = 0 and l = 3 and st = ?st'] wrap w1 w0 lv
  have alive: "case wrap_for_grad 0 3 (initial_state\<lparr>allocated := 1\<rparr>) of
      (w, st') \<Rightarrow> w = 1 \<and> unwrap_for_grad w 3 st' = Inr 0 \<and>
        unwrap_for_grad w 4 st' = Inr w \<and> unwrap_for_grad 0 3 st' = Inr 0"
    by auto
  let ?dead = "initial_state\<lparr>impl := (impl initial_state)
        (1 := \<lparr>sizes = [], itemsize = 1, data = [], kind = TensorWrapper 0 3 False\<rparr>),
        allocated := 2\<rparr>"
  have d1: "maybeGetTensorWrapper 1 ?dead = Some (TensorWrapper 0 3 False)"
    by (simp add: maybeGetTensorWrapper_def)
  have d2: "TensorWrapper_level (TensorWrapper 0 3 False) = None"
    by (simp add: TensorWrapper_level_def)
  from unwrap_for_grad_after_wrap [where s = 1 and l = 3 and st = ?dead] d1 d2
  have d3: "unwrap_for_grad 1 3 ?dead = Inl InternalAssertFailed"
    by blast
  note parts = alive d1 d2 d3
  show ?thesis
    by (intro conjI) (rule parts)+
qed

text \<open>
  C2 as stated fails on a wrapper that is no longer alive: its \<^verbatim>\<open>level()\<close> is empty, so it
  differs from every \<open>l\<close>, and the call throws instead of returning the wrapper.
\<close>

theorem unwrap_for_grad_dead_wrapper:
  "maybeGetTensorWrapper 1
     (initial_state\<lparr>impl := (impl initial_state)
        (1 := \<lparr>sizes = [], itemsize = 1, data = [], kind = TensorWrapper 0 2 False\<rparr>),
        allocated := 2\<rparr>) = Some (TensorWrapper 0 2 False) \<and>
   TensorWrapper_level (TensorWrapper 0 2 False) \<noteq> Some 1 \<and>
   unwrap_for_grad 1 1
     (initial_state\<lparr>impl := (impl initial_state)
        (1 := \<lparr>sizes = [], itemsize = 1, data = [], kind = TensorWrapper 0 2 False\<rparr>),
        allocated := 2\<rparr>) = Inl InternalAssertFailed"
  by (simp add: unwrap_for_grad_def maybeGetTensorWrapper_def TensorWrapper_level_def)

lemma wrap_functional_tensor_result:
  "wrap_functional_tensor self l st =
     (allocated st,
      st\<lparr>impl := (impl st)(allocated st :=
             \<lparr>sizes = sizes (impl st self), itemsize = itemsize (impl st self),
              data = data (impl st self), kind = FunctionalTensorWrapper self l None\<rparr>),
         allocated := Suc (allocated st)\<rparr>)"
  by (simp add: wrap_functional_tensor_def to_functional_tensor_def make_tensor_def
      set_level_def)

lemma assert_wrapped_functional_iff:
  "assert_wrapped_functional unwrapped wrapped st = Inr () \<longleftrightarrow>
     isFunctionalTensor wrapped st \<and> \<not> isFunctionalTensor unwrapped st \<and>
     unsafeGetTensorImpl (value_of (unsafeGetFunctionalWrapper wrapped st)) =
       unsafeGetTensorImpl unwrapped"
  by (auto simp: assert_wrapped_functional_def Let_def)

lemma assert_wrapped_functional_cases:
  "assert_wrapped_functional unwrapped wrapped st = Inr () \<or>
   assert_wrapped_functional unwrapped wrapped st = Inl InternalAssertFailed"
  by (simp add: assert_wrapped_functional_def Let_def)

text \<open>
  C7. \<^verbatim>\<open>_wrap_functional_tensor(self, l)\<close> returns a functional tensor whose level is \<open>l\<close> and
  whose inner value is the handle \<open>self\<close> (also as \<^verbatim>\<open>maybe_get_level\<close> and
  \<^verbatim>\<open>get_unwrapped\<close> read them). \<^verbatim>\<open>_assert_wrapped_functional(unwrapped, wrapped)\<close> returns
  exactly when \<open>wrapped\<close> is a functional tensor, \<open>unwrapped\<close> is not, and the inner value
  of \<open>wrapped\<close> is the same tensor object as \<open>unwrapped\<close>; in every other case it fails an
  internal assertion. For a tensor \<open>self\<close> that exists, the assertion on \<open>self\<close> and its
  fresh wrapper passes unless \<open>self\<close> is itself functional.
\<close>

theorem wrap_functional_tensor_tags:
  "(case wrap_functional_tensor self l st of
      (t, st') \<Rightarrow>
        isFunctionalTensor t st' \<and>
        level_of (unsafeGetFunctionalWrapper t st') = l \<and>
        value_of (unsafeGetFunctionalWrapper t st') = self \<and>
        maybe_get_level t st' = l \<and>
        get_unwrapped t st' = Inr self \<and>
        (self < allocated st \<longrightarrow>
           assert_wrapped_functional self t st' =
             (if isFunctionalTensor self st then Inl InternalAssertFailed else Inr ()))) \<and>
   (assert_wrapped_functional unwrapped wrapped st = Inr () \<longleftrightarrow>
      isFunctionalTensor wrapped st \<and> \<not> isFunctionalTensor unwrapped st \<and>
      unsafeGetTensorImpl (value_of (unsafeGetFunctionalWrapper wrapped st)) =
        unsafeGetTensorImpl unwrapped) \<and>
   (assert_wrapped_functional unwrapped wrapped st = Inr () \<or>
    assert_wrapped_functional unwrapped wrapped st = Inl InternalAssertFailed)"
proof -
  let ?t = "allocated st"
  let ?st' = "st\<lparr>impl := (impl st)(allocated st :=
             \<lparr>sizes = sizes (impl st self), itemsize = itemsize (impl st self),
              data = data (impl st self), kind = FunctionalTensorWrapper self l None\<rparr>),
         allocated := Suc (allocated st)\<rparr>"
  have functional: "isFunctionalTensor ?t ?st'"
    by (simp add: isFunctionalTensor_def)
  have lvl: "level_of (unsafeGetFunctionalWrapper ?t ?st') = l"
    and inner: "value_of (unsafeGetFunctionalWrapper ?t ?st') = self"
    by (simp_all add: unsafeGetFunctionalWrapper_def)
  have read_level: "maybe_get_level ?t ?st' = l"
    by (simp add: maybe_get_level_def maybeGetBatchedImpl_def maybeGetTensorWrapper_def
        isFunctionalTensor_def unsafeGetFunctionalWrapper_def)
  have read_value: "get_unwrapped ?t ?st' = Inr self"
    by (simp add: get_unwrapped_def maybeGetBatchedImpl_def maybeGetTensorWrapper_def
        isFunctionalTensor_def unsafeGetFunctionalWrapper_def)
  have round: "self < allocated st \<longrightarrow>
           assert_wrapped_functional self ?t ?st' =
             (if isFunctionalTensor self st then Inl InternalAssertFailed else Inr ())"
    by (simp add: assert_wrapped_functional_def isFunctionalTensor_def
        unsafeGetFunctionalWrapper_def unsafeGetTensorImpl_def)
  from functional lvl inner read_level read_value round
  have first: "case wrap_functional_tensor self l st of
      (t, st') \<Rightarrow>
        isFunctionalTensor t st' \<and>
        level_of (unsafeGetFunctionalWrapper t st') = l \<and>
        value_of (unsafeGetFunctionalWrapper t st') = self \<and>
        maybe_get_level t st' = l \<and>
        get_unwrapped t st' = Inr self \<and>
        (self < allocated st \<longrightarrow>
           assert_wrapped_functional self t st' =
             (if isFunctionalTensor self st then Inl InternalAssertFailed else Inr ()))"
    unfolding wrap_functional_tensor_result by simp
  note parts = first assert_wrapped_functional_iff [of unwrapped wrapped st]
    assert_wrapped_functional_cases [of unwrapped wrapped st]
  show ?thesis
    by (intro conjI) (rule parts)+
qed

theorem wrap_functional_tensor_tags_witness:
  "(0::nat) < allocated (initial_state\<lparr>allocated := 1\<rparr>) \<and>
   (case wrap_functional_tensor 0 7 (initial_state\<lparr>allocated := 1\<rparr>) of
      (t, st') \<Rightarrow> t = 1 \<and> isFunctionalTensor t st' \<and> maybe_get_level t st' = 7 \<and>
        get_unwrapped t st' = Inr 0 \<and>
        assert_wrapped_functional 0 t st' = Inr () \<and>
        assert_wrapped_functional t 0 st' = Inl InternalAssertFailed)"
proof -
  let ?st = "initial_state\<lparr>allocated := 1\<rparr>"
  have plain: "\<not> isFunctionalTensor 0 ?st"
    by (simp add: isFunctionalTensor_def initial_state_def)
  obtain t st' where w: "wrap_functional_tensor 0 7 ?st = (t, st')"
    by (cases "wrap_functional_tensor 0 7 ?st")
  then have t: "t = 1"
    by (simp add: wrap_functional_tensor_result initial_state_def)
  have plain': "\<not> isFunctionalTensor 0 st'"
    using w by (auto simp: wrap_functional_tensor_result isFunctionalTensor_def
        initial_state_def)
  from wrap_functional_tensor_tags [where self = 0 and l = 7 and st = ?st]
       wrap_functional_tensor_tags [where unwrapped = 0 and wrapped = t and st = st']
       wrap_functional_tensor_tags [where unwrapped = t and wrapped = 0 and st = st']
       w plain plain' t
  show ?thesis
    by (auto simp: initial_state_def)
qed

section \<open>Properties of removing a batch dimension\<close>




























section \<open>What the exported operations write\<close>

lemma snd_returning: "snd (returning f out) = snd out"
  by (simp add: returning_def split: prod.splits sum.splits)

lemma addBatchDim_data:
  "p < allocated st \<Longrightarrow> data (impl (snd (addBatchDim self b l st)) p) = data (impl st p)"
  by (simp add: addBatchDim_def make_tensor_def)

lemma expand_data:
  "p < allocated st \<Longrightarrow> data (impl (snd (expand self new_sizes st)) p) = data (impl st p)"
  by (simp add: expand_def Let_def make_tensor_def split: prod.splits)

lemma permute_data:
  "p < allocated st \<Longrightarrow> data (impl (snd (permute self dims st)) p) = data (impl st p)"
  by (simp add: permute_def make_tensor_def split: prod.splits sum.splits)

lemma movedim_data:
  "p < allocated st \<Longrightarrow> data (impl (snd (movedim self src dst st)) p) = data (impl st p)"
  by (simp add: movedim_def Let_def permute_data split: sum.splits)

lemma remove_batch_dim_data:
  "p < allocated st \<Longrightarrow>
   data (impl (snd (remove_batch_dim self level batch_size out_dim st)) p) = data (impl st p)"
  by (simp add: remove_batch_dim_def Let_def expand_data movedim_data
      split: sum.splits option.splits prod.splits)

lemma wrap_functional_tensor_data:
  "p < allocated st \<Longrightarrow>
   data (impl (snd (wrap_functional_tensor self level st)) p) = data (impl st p)"
  by (simp add: wrap_functional_tensor_result)

lemma wrap_for_grad_data:
  "p < allocated st \<Longrightarrow> data (impl (snd (wrap_for_grad self level st)) p) = data (impl st p)"
  by (simp add: wrap_for_grad_def makeTensorWrapper_def make_tensor_def)

lemma regenerate_from_base_data: "data (impl (regenerate_from_base t st) p) = data (impl st p)"
  by (simp add: regenerate_from_base_def split: TensorKind.splits option.splits)

lemma sync_data: "data (impl (sync t st) p) = data (impl st p)"
  by (simp add: sync_def apply_updates_def regenerate_from_base_data)

lemma unwrap_functional_tensor_data:
  "data (impl (snd (unwrap_functional_tensor self add_back_views st)) p) = data (impl st p)"
  by (simp add: unwrap_functional_tensor_def apply_updates_def Let_def regenerate_from_base_data)

lemma nesting_step_impl: "impl (snd (nesting_step c st)) = impl st"
proof (cases c)
  case GradIncrement
  then show ?thesis by (simp add: grad_increment_nesting_def push_result)
next
  case GradDecrement
  then show ?thesis
    by (simp add: grad_decrement_nesting_def popDynamicLayerAndDeleteMetadata_def)
next
  case JvpIncrement
  then show ?thesis by (simp add: jvp_increment_nesting_def push_result)
next
  case JvpDecrement
  then show ?thesis
    by (simp add: jvp_decrement_nesting_def popDynamicLayerAndDeleteMetadata_def)
next
  case (VmapIncrement b r)
  then show ?thesis
    by (simp add: vmap_increment_nesting_def push_result split: sum.splits)
next
  case VmapDecrement
  then show ?thesis
    by (simp add: vmap_decrement_nesting_def popDynamicLayerAndDeleteMetadata_def)
next
  case (FuncIncrement v)
  then show ?thesis by (simp add: func_increment_nesting_def push_result)
next
  case FuncDecrement
  then show ?thesis
    by (simp add: func_decrement_nesting_def popDynamicLayerAndDeleteMetadata_def)
qed

lemma unwrapTensorAtCurrentLevel_data:
  "p < allocated st \<Longrightarrow>
   data (impl (snd (unwrapTensorAtCurrentLevel tensor st)) p) = data (impl st p)"
proof -
  assume p: "p < allocated st"
  have move: "data (impl (snd (moveBatchDimToFront v b st)) p) = data (impl st p)" for v b
    using p by (simp add: moveBatchDimToFront_def permute_data split: option.splits)
  show ?thesis
  proof (cases "maybeCurrentDynamicLayer st")
    case None
    then show ?thesis by (simp add: unwrapTensorAtCurrentLevel_def)
  next
    case (Some layer)
    obtain v b where u: "unwrapTensorAtLevel tensor (layerId layer) st = (v, b)"
      by (cases "unwrapTensorAtLevel tensor (layerId layer) st")
    obtain r st' where m: "moveBatchDimToFront v b st = (r, st')"
      by (cases "moveBatchDimToFront v b st")
    with move [of v b] have "data (impl st' p) = data (impl st p)" by simp
    with Some u m show ?thesis
      by (cases r) (simp_all add: unwrapTensorAtCurrentLevel_def)
  qed
qed

lemma invoke_keeps_data:
  assumes "\<And>u w. c \<noteq> Propagate_functional_input_mutation u w" and "p < allocated st"
  shows "data (impl (snd (invoke c st)) p) = data (impl st p)"
proof (cases c)
  case (Add_batch_dim self b l)
  with addBatchDim_data [OF assms(2), of self b l] show ?thesis
    by (cases "addBatchDim self b l st") (simp add: add_batch_dim_def)
next
  case (Remove_batch_dim self l b out_dim)
  with assms(2) show ?thesis by (simp add: snd_returning remove_batch_dim_data)
next
  case (Wrap_functional_tensor self l)
  with wrap_functional_tensor_data [OF assms(2), of self l] show ?thesis
    by (cases "wrap_functional_tensor self l st") simp
next
  case (Assert_wrapped_functional u w)
  then show ?thesis by (simp add: snd_returning)
next
  case (Propagate_functional_input_mutation u w)
  with assms(1) show ?thesis by blast
next
  case (Unwrap_functional_tensor self v)
  then show ?thesis by (simp add: snd_returning unwrap_functional_tensor_data)
next
  case (Nesting n)
  then show ?thesis by (simp add: snd_returning nesting_step_impl)
next
  case (Wrap_for_grad self l)
  with wrap_for_grad_data [OF assms(2), of self l] show ?thesis
    by (cases "wrap_for_grad self l st") simp
next
  case (Unwrap_batchedtensor t)
  with assms(2) show ?thesis by (simp add: snd_returning unwrapTensorAtCurrentLevel_data)
qed (simp_all add: snd_returning tls_set_vmap_excluded_def set_dynamic_layer_keys_included_def
      set_fwd_grad_enabled_def)

lemma copy_data:
  "data (impl (copy self src st) self) = data (impl st src)"
  "p \<noteq> self \<Longrightarrow> data (impl (copy self src st) p) = data (impl st p)"
  by (simp_all add: copy_def)

lemma propagate_cases:
  "propagate_functional_input_mutation unwrapped wrapped st =
     (if \<not> isFunctionalTensor wrapped st \<or> isFunctionalTensor unwrapped st
        then (Inl InternalAssertFailed, st)
      else if unwrapped = value_of (unsafeGetFunctionalWrapper wrapped (sync wrapped st))
        then (Inr (), sync wrapped st)
      else if nbytes (impl (sync wrapped st) unwrapped) \<noteq>
                nbytes (impl (sync wrapped st)
                  (value_of (unsafeGetFunctionalWrapper wrapped (sync wrapped st)))) \<or>
              sizes (impl (sync wrapped st) unwrapped) \<noteq>
                sizes (impl (sync wrapped st)
                  (value_of (unsafeGetFunctionalWrapper wrapped (sync wrapped st))))
        then (Inl InternalAssertFailed, sync wrapped st)
      else (Inr (),
            copy unwrapped (value_of (unsafeGetFunctionalWrapper wrapped (sync wrapped st)))
              (sync wrapped st)))"
  by (simp add: propagate_functional_input_mutation_def Let_def unsafeGetTensorImpl_def)

text \<open>
  C3, as the code has it. No exported operation other than
  \<^verbatim>\<open>_propagate_functional_input_mutation\<close> changes the data of a tensor that exists when it
  is called, whether it returns or throws: the operations make new tensor objects and
  change levels, values of wrappers and flags. \<^verbatim>\<open>_propagate_functional_input_mutation\<close>
  first commits the pending updates of the wrapper, which changes no data; then, when
  \<open>wrapped\<close> is a functional tensor, \<open>unwrapped\<close> is not, \<open>unwrapped\<close> is not the inner tensor
  of the wrapper and both have the same \<^verbatim>\<open>nbytes()\<close> and \<^verbatim>\<open>sizes()\<close>, it ends with
  \<^verbatim>\<open>unwrapped.copy_(wrapped_inner)\<close>, after which the data of its argument \<open>unwrapped\<close> is
  the data of the inner tensor. In every other case it writes nothing.
\<close>

theorem only_propagation_writes_tensor_data:
  "((\<forall>u w. c \<noteq> Propagate_functional_input_mutation u w) \<longrightarrow>
      (\<forall>p<allocated st. data (impl (snd (invoke c st)) p) = data (impl st p))) \<and>
   snd (invoke (Propagate_functional_input_mutation unwrapped wrapped) st) =
     snd (propagate_functional_input_mutation unwrapped wrapped st) \<and>
   (\<forall>p. data (impl (sync wrapped st) p) = data (impl st p)) \<and>
   propagate_functional_input_mutation unwrapped wrapped st =
     (if \<not> isFunctionalTensor wrapped st \<or> isFunctionalTensor unwrapped st
        then (Inl InternalAssertFailed, st)
      else if unwrapped = value_of (unsafeGetFunctionalWrapper wrapped (sync wrapped st))
        then (Inr (), sync wrapped st)
      else if nbytes (impl (sync wrapped st) unwrapped) \<noteq>
                nbytes (impl (sync wrapped st)
                  (value_of (unsafeGetFunctionalWrapper wrapped (sync wrapped st)))) \<or>
              sizes (impl (sync wrapped st) unwrapped) \<noteq>
                sizes (impl (sync wrapped st)
                  (value_of (unsafeGetFunctionalWrapper wrapped (sync wrapped st))))
        then (Inl InternalAssertFailed, sync wrapped st)
      else (Inr (),
            copy unwrapped (value_of (unsafeGetFunctionalWrapper wrapped (sync wrapped st)))
              (sync wrapped st))) \<and>
   data (impl (copy unwrapped src st') unwrapped) = data (impl st' src) \<and>
   (\<forall>p. p \<noteq> unwrapped \<longrightarrow> data (impl (copy unwrapped src st') p) = data (impl st' p))"
proof -
  have others: "(\<forall>u w. c \<noteq> Propagate_functional_input_mutation u w) \<longrightarrow>
      (\<forall>p<allocated st. data (impl (snd (invoke c st)) p) = data (impl st p))"
    using invoke_keeps_data [of c _ st] by blast
  have exported: "snd (invoke (Propagate_functional_input_mutation unwrapped wrapped) st) =
     snd (propagate_functional_input_mutation unwrapped wrapped st)"
    by (simp add: snd_returning)
  have committing: "\<forall>p. data (impl (sync wrapped st) p) = data (impl st p)"
    by (simp add: sync_data)
  have rest: "\<forall>p. p \<noteq> unwrapped \<longrightarrow>
      data (impl (copy unwrapped src st') p) = data (impl st' p)"
    by (simp add: copy_data)
  note parts = others exported committing propagate_cases [of unwrapped wrapped st]
    copy_data(1) [of unwrapped src st'] rest
  show ?thesis
    by (intro conjI) (rule parts)+
qed

theorem only_propagation_writes_tensor_data_witness:
  "(\<forall>u w. Remove_batch_dim 1 1 5 (- 1) \<noteq> Propagate_functional_input_mutation u w) \<and>
   0 < allocated example_state \<and>
   data (impl (snd (invoke (Remove_batch_dim 1 1 5 (- 1)) example_state)) 0) =
     data (impl example_state 0) \<and>
   data (impl (copy 3 4 example_state) 4) = data (impl example_state 4)"
proof -
  have a: "0 < allocated example_state"
    by (simp add: example_state_def)
  have b: "\<forall>u w. Remove_batch_dim 1 1 5 (- 1) \<noteq> Propagate_functional_input_mutation u w"
    by simp
  from only_propagation_writes_tensor_data
         [where c = "Remove_batch_dim 1 1 5 (- 1)" and st = example_state
            and unwrapped = 3 and src = 4 and st' = example_state] a b
  show ?thesis by auto
qed

text \<open>
  C3 as stated fails on \<^verbatim>\<open>_propagate_functional_input_mutation\<close>: called on a plain tensor
  and a functional wrapper of another tensor of the same shape, it returns, and the data
  of its argument \<open>unwrapped\<close> has been overwritten.
\<close>

theorem propagation_overwrites_unwrapped:
  "3 < allocated example_state \<and>
   data (impl example_state 3) = [7, 8] \<and>
   fst (invoke (Propagate_functional_input_mutation 3 5) example_state) = Inr RNone \<and>
   data (impl (snd (invoke (Propagate_functional_input_mutation 3 5) example_state)) 3) = [9, 10]"
  by (simp add: returning_def propagate_functional_input_mutation_def isFunctionalTensor_def
      unsafeGetFunctionalWrapper_def unsafeGetTensorImpl_def sync_def apply_updates_def
      nbytes_def copy_def Let_def example_state_def)

end
